theory Spec2Isabelle
  imports Complex_Main
begin

section \<open>Errors and the helpers of \<open>sockeye.utils\<close> and \<open>sockeye.constants\<close>\<close>

text \<open>
  The three kinds of failure of \<^verbatim>\<open>sockeye/convolution.py\<close>: the error raised by
  \<^verbatim>\<open>utils.check_condition\<close>, Python's \<^verbatim>\<open>ValueError\<close>, and a failure reported by
  the MXNet operators when the symbolic graph is evaluated. Each carries its message.
\<close>

datatype error = SockeyeError string | ValueError string | MXNetError string

text \<open>
  Modelled from the spec: \<^verbatim>\<open>utils.check_condition\<close> lives in \<^verbatim>\<open>sockeye/utils.py\<close>,
  which is not among the sources. The spec names its failure the invalid-configuration
  error: the call raises it with the given message when the condition is false and
  returns nothing otherwise.
\<close>

definition check_condition :: "bool \<Rightarrow> string \<Rightarrow> error + unit" where
  "check_condition condition error_message =
     (if \<not> condition then Inl (SockeyeError error_message) else Inr ())"

text \<open>
  The module \<^verbatim>\<open>sockeye/constants.py\<close> is not among the sources either. The two
  constants that \<^verbatim>\<open>convolution.py\<close> reads from it are parameters of the model.
\<close>

record constants =
  GLU :: string
  CNN_ACTIVATION_TYPES :: "string list"

text \<open>Python's \<^verbatim>\<open>"%d" % n\<close> for an integer: the decimal digits, with a sign.\<close>

function str_nat :: "nat \<Rightarrow> string" where
  "str_nat n =
     (if n < 10 then [char_of (48 + n)]
      else str_nat (n div 10) @ [char_of (48 + n mod 10)])"
  by pat_completeness auto
termination
  by (relation "measure (\<lambda>n. n)") auto

definition str_int :: "int \<Rightarrow> string" where
  "str_int i = (if i < 0 then CHR ''-'' # str_nat (nat (- i)) else str_nat (nat i))"

section \<open>\<open>ConvolutionConfig\<close>\<close>

record ConvolutionConfig =
  kernel_width :: int
  num_hidden :: int
  act_type :: string

text \<open>
  \<^verbatim>\<open>ConvolutionConfig.__init__(self, kernel_width, num_hidden, act_type=C.GLU)\<close>.
  The optional argument is \<open>None\<close> when the caller leaves it out. The fields are
  assigned in the order of the source; the check sits between \<open>num_hidden\<close> and
  \<open>act_type\<close>, and a failed check leaves no object behind. The base class
  \<^verbatim>\<open>Config\<close> (not among the sources) is taken to construct without failing.
\<close>

definition ConvolutionConfig_init ::
  "constants \<Rightarrow> int \<Rightarrow> int \<Rightarrow> string option \<Rightarrow> error + ConvolutionConfig" where
  "ConvolutionConfig_init C kw nh act_opt =
     (let act = (case act_opt of None \<Rightarrow> GLU C | Some a \<Rightarrow> a) in
      case check_condition (act \<in> set (CNN_ACTIVATION_TYPES C))
             (''Unknown activation '' @ act @ ''.'') of
        Inl e \<Rightarrow> Inl e
      | Inr _ \<Rightarrow> Inr \<lparr>kernel_width = kw, num_hidden = nh, act_type = act\<rparr>)"

section \<open>Symbolic graphs\<close>

text \<open>
  \<^verbatim>\<open>ConvolutionBlock.__call__\<close> computes no numbers: it composes MXNet symbols, and
  the value it returns is a symbolic expression over its inputs. The expressions it can
  build are the terms of \<open>sym\<close>, one constructor for each \<^verbatim>\<open>mx.sym\<close> function the
  source calls, with the arguments the source passes:
  \<^item> \<open>SequenceMask data sequence_length\<close> is the call with
    \<^verbatim>\<open>use_sequence_length=True, value=0\<close>;
  \<^item> \<open>Convolution data weight bias pad kernel num_filter\<close> is the call with
    \<^verbatim>\<open>layout="NCW"\<close>, a one-element kernel tuple and the pad argument as it is passed:
    \<open>Some p\<close> for the tuple \<^verbatim>\<open>(p,)\<close> and \<open>None\<close> for Python's \<^verbatim>\<open>None\<close>;
  \<^item> \<open>SplitOut data num_outputs axis i\<close> is output \<open>i\<close> of
    \<^verbatim>\<open>mx.sym.split(data, num_outputs, axis)\<close>.
\<close>

datatype sym =
    Variable string
  | SwapAxes sym nat nat
  | SequenceMask sym sym
  | Transpose sym "nat list"
  | Convolution sym sym sym "int option" int int
  | SliceAxis sym nat int int
  | SplitOut sym nat nat nat
  | BroadcastMul sym sym
  | Activation sym string

text \<open>
  Calling an \<^verbatim>\<open>mx.sym\<close> function is an effect: it adds a node to the graph. The model
  threads the list of the operator calls that have added a node so far, oldest first,
  through every call.
\<close>

type_synonym trace = "string list"

definition sym_swapaxes :: "sym \<Rightarrow> nat \<Rightarrow> nat \<Rightarrow> trace \<Rightarrow> sym \<times> trace" where
  "sym_swapaxes data dim1 dim2 tr = (SwapAxes data dim1 dim2, tr @ [''swapaxes''])"

definition sym_SequenceMask :: "sym \<Rightarrow> sym \<Rightarrow> trace \<Rightarrow> sym \<times> trace" where
  "sym_SequenceMask data sequence_length tr =
     (SequenceMask data sequence_length, tr @ [''SequenceMask''])"

definition sym_transpose :: "sym \<Rightarrow> nat list \<Rightarrow> trace \<Rightarrow> sym \<times> trace" where
  "sym_transpose data axes tr = (Transpose data axes, tr @ [''transpose''])"

text \<open>
  \<^verbatim>\<open>mx.sym.Convolution(..., pad=padding, ...)\<close>. The source always passes the keyword
  \<^verbatim>\<open>pad\<close>, and MXNet reads its value as a shape tuple when it creates the symbol.
  Python's \<^verbatim>\<open>None\<close> is not one: the call raises (MXNet's message is "Invalid Parameter
  format for pad expect Shape(tuple)", naming the value), and no node is added.
\<close>

definition invalid_pad :: error where
  "invalid_pad = MXNetError ''Invalid Parameter format for pad expect Shape(tuple) but value=None''"

definition sym_Convolution ::
  "sym \<Rightarrow> sym \<Rightarrow> sym \<Rightarrow> int option \<Rightarrow> int \<Rightarrow> int \<Rightarrow> trace \<Rightarrow>
   (error + sym) \<times> trace" where
  "sym_Convolution data weight bias pad kernel' num_filter tr =
     (case pad of
        None \<Rightarrow> (Inl invalid_pad, tr)
      | Some p \<Rightarrow>
          (Inr (Convolution data weight bias (Some p) kernel' num_filter),
           tr @ [''Convolution'']))"

definition sym_slice_axis :: "sym \<Rightarrow> nat \<Rightarrow> int \<Rightarrow> int \<Rightarrow> trace \<Rightarrow> sym \<times> trace" where
  "sym_slice_axis data axis begin end tr = (SliceAxis data axis begin end, tr @ [''slice_axis''])"

text \<open>
  \<^verbatim>\<open>gate_a, gate_b = mx.sym.split(data_conv, num_outputs=2, axis=1)\<close>: one call, whose
  two outputs are unpacked into a pair.
\<close>

definition sym_split2 :: "sym \<Rightarrow> nat \<Rightarrow> trace \<Rightarrow> (sym \<times> sym) \<times> trace" where
  "sym_split2 data axis tr =
     ((SplitOut data 2 axis 0, SplitOut data 2 axis 1), tr @ [''split''])"

definition sym_broadcast_mul :: "sym \<Rightarrow> sym \<Rightarrow> trace \<Rightarrow> sym \<times> trace" where
  "sym_broadcast_mul lhs rhs tr = (BroadcastMul lhs rhs, tr @ [''broadcast_mul''])"

definition sym_Activation :: "sym \<Rightarrow> string \<Rightarrow> trace \<Rightarrow> sym \<times> trace" where
  "sym_Activation data act tr = (Activation data act, tr @ [''Activation''])"

section \<open>\<open>ConvolutionBlock\<close>\<close>

record ConvolutionBlock =
  prefix :: string
  pad_type :: string
  config :: ConvolutionConfig
  conv_weight :: sym
  conv_bias :: sym

text \<open>
  \<^verbatim>\<open>ConvolutionBlock.__init__(self, config, pad_type, prefix)\<close> stores its arguments and
  creates the two parameter variables. No statement of it raises, so the result is
  always on the right.
\<close>

definition ConvolutionBlock_init ::
  "ConvolutionConfig \<Rightarrow> string \<Rightarrow> string \<Rightarrow> error + ConvolutionBlock" where
  "ConvolutionBlock_init cfg pt pre =
     Inr \<lparr>prefix = pre, pad_type = pt, config = cfg,
          conv_weight = Variable (pre @ ''conv_weight''),
          conv_bias = Variable (pre @ ''conv_bias'')\<rparr>"

text \<open>
  \<^verbatim>\<open>int(n / 2)\<close> for a Python integer \<open>n\<close>: the true quotient, truncated towards zero.
  (Python computes the quotient as a double, which is exact for \<open>\<bar>n\<bar> < 2^54\<close>; kernel
  widths beyond that are outside what MXNet shapes can hold, and the model takes the
  quotient exactly.)
\<close>

definition int_half :: "int \<Rightarrow> int" where
  "int_half n = (if 0 \<le> n then n div 2 else - ((- n) div 2))"

text \<open>
  Lines 75 to 87 of \<^verbatim>\<open>__call__\<close>: the padding handed to the convolution. \<open>None\<close> is
  Python's \<^verbatim>\<open>None\<close>; the one-element tuple \<^verbatim>\<open>(p,)\<close> is \<open>Some p\<close>.
\<close>

definition call_padding :: "ConvolutionBlock \<Rightarrow> bool \<Rightarrow> error + int option" where
  "call_padding self skip_padding =
     (if skip_padding then Inr None
      else if pad_type self = ''left'' then Inr (Some (kernel_width (config self) - 1))
      else if pad_type self = ''centered'' then
        (case check_condition (kernel_width (config self) mod 2 = 1)
                (''Only odd kernel widths supported, but got '' @
                   str_int (kernel_width (config self))) of
           Inl e \<Rightarrow> Inl e
         | Inr _ \<Rightarrow> Inr (Some (int_half (kernel_width (config self) - 1))))
      else Inl (ValueError (''Unknown pad type '' @ pad_type self)))"

text \<open>
  \<^verbatim>\<open>ConvolutionBlock.__call__(self, data, data_length, seq_len, skip_padding=False)\<close>,
  statement by statement. A raise ends the call with the trace as it is at that point.
\<close>

definition ConvolutionBlock_call ::
  "ConvolutionBlock \<Rightarrow> sym \<Rightarrow> sym \<Rightarrow> int \<Rightarrow> bool \<Rightarrow> trace \<Rightarrow> (error + sym) \<times> trace" where
  "ConvolutionBlock_call self data data_length seq_len skip_padding tr =
     (case call_padding self skip_padding of
        Inl e \<Rightarrow> (Inl e, tr)
      | Inr padding \<Rightarrow>
          let num_hidden' =
                (if act_type (config self) = ''glu'' then 2 * num_hidden (config self)
                 else num_hidden (config self));
              (data1, tr1) = sym_swapaxes data 0 1 tr;
              (data2, tr2) = sym_SequenceMask data1 data_length tr1;
              (data3, tr3) = sym_transpose data2 [1, 2, 0] tr2
          in case sym_Convolution data3 (conv_weight self) (conv_bias self) padding
                    (kernel_width (config self)) num_hidden' tr3 of
               (Inl e, tr4) \<Rightarrow> (Inl e, tr4)
             | (Inr data_conv, tr4) \<Rightarrow>
                 let (data_conv', tr5) =
                       (if \<not> skip_padding \<and> pad_type self = ''left''
                        then sym_slice_axis data_conv 2 0 seq_len tr4
                        else (data_conv, tr4));
                     (block_output, tr6) =
                       (if act_type (config self) = ''glu'' then
                          let ((gate_a, gate_b), tr5a) = sym_split2 data_conv' 1 tr5;
                              (gate_s, tr5b) = sym_Activation gate_b ''sigmoid'' tr5a
                          in sym_broadcast_mul gate_a gate_s tr5b
                        else sym_Activation data_conv' (act_type (config self)) tr5);
                     (block_output', tr7) = sym_swapaxes block_output 1 2 tr6
                 in (Inr block_output', tr7))"

section \<open>The MXNet operators\<close>

text \<open>
  MXNet is the numerical substrate outside the repository. What the graph computes once
  its variables are bound is given by the documented behaviour of the operators: a tensor
  is its shape and its entries, read by a multi-index; an operator fails on the shapes
  MXNet rejects. The entries are of any type with addition, multiplication and zero.
\<close>

record 'a tensor =
  shape :: "nat list"
  elt :: "nat list \<Rightarrow> 'a"

text \<open>\<^verbatim>\<open>swapaxes(data, dim1, dim2)\<close> exchanges two axes.\<close>

definition mx_swapaxes :: "nat \<Rightarrow> nat \<Rightarrow> 'a tensor \<Rightarrow> error + 'a tensor" where
  "mx_swapaxes dim1 dim2 d =
     (if dim1 < length (shape d) \<and> dim2 < length (shape d) then
        Inr \<lparr>shape = (shape d)[dim1 := shape d ! dim2, dim2 := shape d ! dim1],
             elt = (\<lambda>idx. elt d (idx[dim1 := idx ! dim2, dim2 := idx ! dim1]))\<rparr>
      else Inl (MXNetError ''swapaxes: axis out of range''))"

text \<open>
  \<^verbatim>\<open>SequenceMask(data, sequence_length, use_sequence_length=True, value=0)\<close>: the data
  is time-major, (time, batch, ...); the length vector has one entry per batch element,
  read as an integer by \<open>lenv\<close>; every entry at a time index at or past the length of its
  batch element becomes 0.
\<close>

definition mx_SequenceMask ::
  "('a \<Rightarrow> int) \<Rightarrow> 'a::zero tensor \<Rightarrow> 'a tensor \<Rightarrow> error + 'a tensor" where
  "mx_SequenceMask lenv d l =
     (if 2 \<le> length (shape d) \<and> shape l = [shape d ! 1] then
        Inr \<lparr>shape = shape d,
             elt = (\<lambda>idx. if int (idx ! 0) < lenv (elt l [idx ! 1]) then elt d idx else 0)\<rparr>
      else Inl (MXNetError ''SequenceMask: shape mismatch''))"

text \<open>
  \<^verbatim>\<open>transpose(data, axes)\<close>: axis \<open>m\<close> of the result is axis \<open>axes ! m\<close> of the data.
  \<open>src_index\<close> is the index in the data of the entry at \<open>idx\<close> in the result.
\<close>

definition src_index :: "nat list \<Rightarrow> nat list \<Rightarrow> nat list" where
  "src_index axes idx =
     fold (\<lambda>m j. j[axes ! m := idx ! m]) [0..<length axes] (replicate (length axes) 0)"

definition mx_transpose :: "nat list \<Rightarrow> 'a tensor \<Rightarrow> error + 'a tensor" where
  "mx_transpose axes d =
     (if sort axes = [0..<length (shape d)] then
        Inr \<lparr>shape = map (\<lambda>a. shape d ! a) axes,
             elt = (\<lambda>idx. elt d (src_index axes idx))\<rparr>
      else Inl (MXNetError ''transpose: axes are not a permutation''))"

text \<open>
  \<^verbatim>\<open>Convolution(data, weight, bias, pad, kernel, num_filter, layout="NCW")\<close> with the
  default stride and dilation 1: data (batch, channel, width), weight
  (num_filter, channel, kernel), bias (num_filter). A pad that is \<open>None\<close> is rejected,
  as it is when the symbol is created. The data is padded with \<open>pad\<close> zeros on each side
  of the width axis; the result has width
  \<open>width + 2 * pad - kernel + 1\<close>, and its entry at \<open>(b, f, w)\<close> is the bias of \<open>f\<close> plus
  the sum over the channels \<open>c\<close> and the kernel positions \<open>j\<close> of
  \<open>weight (f, c, j) * padded (b, c, w + j)\<close>.
\<close>

definition padded_read :: "'a::zero tensor \<Rightarrow> nat \<Rightarrow> nat \<Rightarrow> nat \<Rightarrow> nat \<Rightarrow> nat \<Rightarrow> 'a" where
  "padded_read d p width b c i =
     (if p \<le> i \<and> i < p + width then elt d [b, c, i - p] else 0)"

definition mx_Convolution ::
  "int option \<Rightarrow> int \<Rightarrow> int \<Rightarrow> 'a::semiring_0 tensor \<Rightarrow> 'a tensor \<Rightarrow> 'a tensor \<Rightarrow>
   error + 'a tensor" where
  "mx_Convolution pad kernel' num_filter d w b =
     (case pad of
        None \<Rightarrow> Inl invalid_pad
      | Some p \<Rightarrow>
          (case shape d of
             [batch, channel, width] \<Rightarrow>
               if kernel' < 1 \<or> num_filter < 1 \<or> p < 0 then
                 Inl (MXNetError ''Convolution: invalid kernel, num_filter or pad'')
               else if shape w \<noteq> [nat num_filter, channel, nat kernel'] \<or>
                       shape b \<noteq> [nat num_filter] then
                 Inl (MXNetError ''Convolution: weight or bias shape mismatch'')
               else if int width + 2 * p < kernel' then
                 Inl (MXNetError ''Convolution: kernel size exceeds input'')
               else
                 Inr \<lparr>shape = [batch, nat num_filter, nat (int width + 2 * p - kernel' + 1)],
                      elt = (\<lambda>idx. elt b [idx ! 1] +
                               (\<Sum>c\<leftarrow>[0..<channel]. \<Sum>j\<leftarrow>[0..<nat kernel'].
                                  elt w [idx ! 1, c, j] *
                                  padded_read d (nat p) width (idx ! 0) c (idx ! 2 + j)))\<rparr>
           | _ \<Rightarrow> Inl (MXNetError ''Convolution: data is not 3-dimensional'')))"

text \<open>
  \<^verbatim>\<open>slice_axis(data, axis, begin, end)\<close> keeps the indices \<open>begin \<le> i < end\<close> of one
  axis; a negative bound counts from the end of the axis.
\<close>

definition mx_slice_axis :: "nat \<Rightarrow> int \<Rightarrow> int \<Rightarrow> 'a tensor \<Rightarrow> error + 'a tensor" where
  "mx_slice_axis axis begin end d =
     (if axis < length (shape d) then
        let n = int (shape d ! axis);
            b = (if begin < 0 then begin + n else begin);
            e = (if end < 0 then end + n else end)
        in if 0 \<le> b \<and> b < e \<and> e \<le> n then
             Inr \<lparr>shape = (shape d)[axis := nat (e - b)],
                  elt = (\<lambda>idx. elt d (idx[axis := idx ! axis + nat b]))\<rparr>
           else Inl (MXNetError ''slice_axis: invalid begin or end'')
      else Inl (MXNetError ''slice_axis: axis out of range''))"

text \<open>
  Output \<open>i\<close> of \<^verbatim>\<open>split(data, num_outputs, axis)\<close>: the axis is cut into
  \<open>num_outputs\<close> parts of equal size, which must divide it.
\<close>

definition mx_split :: "nat \<Rightarrow> nat \<Rightarrow> nat \<Rightarrow> 'a tensor \<Rightarrow> error + 'a tensor" where
  "mx_split num_outputs axis i d =
     (if axis < length (shape d) \<and> i < num_outputs \<and> shape d ! axis mod num_outputs = 0 then
        let part = shape d ! axis div num_outputs in
        Inr \<lparr>shape = (shape d)[axis := part],
             elt = (\<lambda>idx. elt d (idx[axis := idx ! axis + i * part]))\<rparr>
      else Inl (MXNetError ''split: axis out of range or not divisible''))"

text \<open>
  \<^verbatim>\<open>broadcast_mul(lhs, rhs)\<close>: the entrywise product, where an axis of size 1 on one
  side is repeated along the axis of the other side.
\<close>

definition bcast_index :: "nat list \<Rightarrow> nat list \<Rightarrow> nat list" where
  "bcast_index s idx = map2 (\<lambda>n i. if n = 1 then 0 else i) s idx"

definition mx_broadcast_mul :: "'a::times tensor \<Rightarrow> 'a tensor \<Rightarrow> error + 'a tensor" where
  "mx_broadcast_mul lhs rhs =
     (if list_all2 (\<lambda>m n. m = n \<or> m = 1 \<or> n = 1) (shape lhs) (shape rhs) then
        Inr \<lparr>shape = map2 max (shape lhs) (shape rhs),
             elt = (\<lambda>idx. elt lhs (bcast_index (shape lhs) idx) *
                           elt rhs (bcast_index (shape rhs) idx))\<rparr>
      else Inl (MXNetError ''broadcast_mul: incompatible shapes''))"

text \<open>
  \<^verbatim>\<open>Activation(data, act_type)\<close> applies a named function to every entry; the table of
  the names MXNet knows, with their functions, is \<open>acts\<close>.
\<close>

definition mx_Activation ::
  "(string \<Rightarrow> ('a \<Rightarrow> 'a) option) \<Rightarrow> string \<Rightarrow> 'a tensor \<Rightarrow> error + 'a tensor" where
  "mx_Activation acts act d =
     (case acts act of
        None \<Rightarrow> Inl (MXNetError (''Activation: unknown act_type '' @ act))
      | Some f \<Rightarrow> Inr \<lparr>shape = shape d, elt = (\<lambda>idx. f (elt d idx))\<rparr>)"

subsection \<open>Evaluating a graph\<close>

text \<open>
  An environment binds the variables of a graph to tensors, and fixes the activation
  functions and the reading of a length entry.
\<close>

record 'a env =
  vars :: "string \<Rightarrow> 'a tensor option"
  act_fun :: "string \<Rightarrow> ('a \<Rightarrow> 'a) option"
  len_val :: "'a \<Rightarrow> int"

definition bind_err :: "error + 'b \<Rightarrow> ('b \<Rightarrow> error + 'c) \<Rightarrow> error + 'c" where
  "bind_err r f = (case r of Inl e \<Rightarrow> Inl e | Inr v \<Rightarrow> f v)"

fun eval :: "'a::semiring_0 env \<Rightarrow> sym \<Rightarrow> error + 'a tensor" where
  "eval E (Variable name) =
     (case vars E name of
        None \<Rightarrow> Inl (MXNetError (''unbound variable '' @ name))
      | Some t \<Rightarrow> Inr t)"
| "eval E (SwapAxes data dim1 dim2) = bind_err (eval E data) (mx_swapaxes dim1 dim2)"
| "eval E (SequenceMask data sequence_length) =
     bind_err (eval E data) (\<lambda>d.
     bind_err (eval E sequence_length) (\<lambda>l. mx_SequenceMask (len_val E) d l))"
| "eval E (Transpose data axes) = bind_err (eval E data) (mx_transpose axes)"
| "eval E (Convolution data weight bias pad kernel' num_filter) =
     bind_err (eval E data) (\<lambda>d.
     bind_err (eval E weight) (\<lambda>w.
     bind_err (eval E bias) (\<lambda>b. mx_Convolution pad kernel' num_filter d w b)))"
| "eval E (SliceAxis data axis begin end) =
     bind_err (eval E data) (mx_slice_axis axis begin end)"
| "eval E (SplitOut data num_outputs axis i) =
     bind_err (eval E data) (mx_split num_outputs axis i)"
| "eval E (BroadcastMul lhs rhs) =
     bind_err (eval E lhs) (\<lambda>a. bind_err (eval E rhs) (\<lambda>b. mx_broadcast_mul a b))"
| "eval E (Activation data act) = bind_err (eval E data) (mx_Activation (act_fun E) act)"

section \<open>Reading a graph and its value\<close>

text \<open>The nodes of a graph: the graph itself and the nodes of its arguments.\<close>

fun nodes :: "sym \<Rightarrow> sym list" where
  "nodes (Variable name) = [Variable name]"
| "nodes (SwapAxes data dim1 dim2) = SwapAxes data dim1 dim2 # nodes data"
| "nodes (SequenceMask data sequence_length) =
     SequenceMask data sequence_length # nodes data @ nodes sequence_length"
| "nodes (Transpose data axes) = Transpose data axes # nodes data"
| "nodes (Convolution data weight bias pad kernel' num_filter) =
     Convolution data weight bias pad kernel' num_filter #
       nodes data @ nodes weight @ nodes bias"
| "nodes (SliceAxis data axis begin end) = SliceAxis data axis begin end # nodes data"
| "nodes (SplitOut data num_outputs axis i) = SplitOut data num_outputs axis i # nodes data"
| "nodes (BroadcastMul lhs rhs) = BroadcastMul lhs rhs # nodes lhs @ nodes rhs"
| "nodes (Activation data act) = Activation data act # nodes data"

text \<open>
  Names for the parts of the graph that \<^verbatim>\<open>__call__\<close> builds, used to state what it
  returns: the masked input in the layout of the convolution (lines 97 to 103), the
  number of filters (lines 89 to 92), the convolution (line 104) and the activation
  (lines 116 to 126).
\<close>

definition masked_input :: "sym \<Rightarrow> sym \<Rightarrow> sym" where
  "masked_input data data_length =
     Transpose (SequenceMask (SwapAxes data 0 1) data_length) [1, 2, 0]"

definition num_filter_of :: "ConvolutionBlock \<Rightarrow> int" where
  "num_filter_of self =
     (if act_type (config self) = ''glu'' then 2 * num_hidden (config self)
      else num_hidden (config self))"

definition conv_node :: "ConvolutionBlock \<Rightarrow> sym \<Rightarrow> sym \<Rightarrow> int option \<Rightarrow> sym" where
  "conv_node self data data_length padding =
     Convolution (masked_input data data_length) (conv_weight self) (conv_bias self)
       padding (kernel_width (config self)) (num_filter_of self)"

definition activation_node :: "ConvolutionBlock \<Rightarrow> sym \<Rightarrow> sym" where
  "activation_node self c =
     (if act_type (config self) = ''glu''
      then BroadcastMul (SplitOut c 2 1 0) (Activation (SplitOut c 2 1 1) ''sigmoid'')
      else Activation c (act_type (config self)))"

text \<open>
  The graph that \<^verbatim>\<open>__call__\<close> returns for a given padding: the convolution, sliced
  along the time axis when the block pads to the left, then the activation, then the
  axes back in the order (batch, time, channel).
\<close>

definition block_graph ::
  "ConvolutionBlock \<Rightarrow> sym \<Rightarrow> sym \<Rightarrow> int \<Rightarrow> bool \<Rightarrow> int option \<Rightarrow> sym" where
  "block_graph self data data_length seq_len skip_padding padding =
     SwapAxes
       (activation_node self
          (if \<not> skip_padding \<and> pad_type self = ''left''
           then SliceAxis (conv_node self data data_length padding) 2 0 seq_len
           else conv_node self data data_length padding)) 1 2"

text \<open>
  A tensor of three axes with the sizes \<open>a\<close>, \<open>b\<close>, \<open>c\<close> whose entry at \<open>(i, j, k)\<close> is
  \<open>F i j k\<close>.
\<close>

definition is3 ::
  "'a tensor \<Rightarrow> nat \<Rightarrow> nat \<Rightarrow> nat \<Rightarrow> (nat \<Rightarrow> nat \<Rightarrow> nat \<Rightarrow> 'a) \<Rightarrow> bool" where
  "is3 y a b c F \<longleftrightarrow>
     shape y = [a, b, c] \<and> (\<forall>i<a. \<forall>j<b. \<forall>k<c. elt y [i, j, k] = F i j k)"

text \<open>
  The entry of the masked input at batch element \<open>b\<close>, channel \<open>h\<close> and time \<open>t\<close>, for
  the data \<open>x\<close> (batch, time, channel) and the length vector \<open>l\<close>.
\<close>

definition masked_val :: "('a \<Rightarrow> int) \<Rightarrow> 'a::zero tensor \<Rightarrow> 'a tensor \<Rightarrow> nat \<Rightarrow> nat \<Rightarrow> nat \<Rightarrow> 'a" where
  "masked_val lenv x l b h t = (if int t < lenv (elt l [b]) then elt x [b, t, h] else 0)"

text \<open>
  The entry of a convolution at batch element \<open>b\<close>, filter \<open>f\<close> and position \<open>t\<close>, over an
  input \<open>G\<close> of \<open>channel\<close> channels and \<open>width\<close> positions padded with \<open>p\<close> zeros on each
  side, with a kernel of \<open>k\<close> positions.
\<close>

definition conv_val ::
  "'a::semiring_0 tensor \<Rightarrow> 'a tensor \<Rightarrow> nat \<Rightarrow> nat \<Rightarrow> nat \<Rightarrow> nat \<Rightarrow>
   (nat \<Rightarrow> nat \<Rightarrow> nat \<Rightarrow> 'a) \<Rightarrow> nat \<Rightarrow> nat \<Rightarrow> nat \<Rightarrow> 'a" where
  "conv_val w bs channel k p width G b f t =
     elt bs [f] +
     (\<Sum>c\<leftarrow>[0..<channel]. \<Sum>j\<leftarrow>[0..<k].
        elt w [f, c, j] *
        (if p \<le> t + j \<and> t + j < p + width then G b c (t + j - p) else 0))"

text \<open>
  The entry of the activation at \<open>(b, h, t)\<close> over the convolution output \<open>F\<close>: the gated
  linear unit multiplies channel \<open>h\<close> of the first half by the sigmoid of channel \<open>h\<close> of
  the second half; any other activation is applied entry by entry.
\<close>

definition act_val ::
  "ConvolutionBlock \<Rightarrow> (string \<Rightarrow> ('a::times \<Rightarrow> 'a) option) \<Rightarrow>
   (nat \<Rightarrow> nat \<Rightarrow> nat \<Rightarrow> 'a) \<Rightarrow> nat \<Rightarrow> nat \<Rightarrow> nat \<Rightarrow> 'a" where
  "act_val self acts F b h t =
     (if act_type (config self) = ''glu''
      then F b h t * the (acts ''sigmoid'') (F b (h + nat (num_hidden (config self))) t)
      else the (acts (act_type (config self))) (F b h t))"

text \<open>
  The inputs of a forward pass: the data has the shape (batch, time, channel) =
  \<open>(B, T, H)\<close> with at least one time step, the length vector has one entry per batch
  element, the weight and the bias are bound with the shapes the convolution needs,
  the kernel width and the hidden size are positive, and MXNet knows the activation.
\<close>

definition valid_inputs ::
  "'a::semiring_0 env \<Rightarrow> ConvolutionBlock \<Rightarrow> sym \<Rightarrow> sym \<Rightarrow> nat \<Rightarrow> nat \<Rightarrow> nat \<Rightarrow>
   'a tensor \<Rightarrow> 'a tensor \<Rightarrow> 'a tensor \<Rightarrow> 'a tensor \<Rightarrow> bool" where
  "valid_inputs E self data data_length B T H x l w bs \<longleftrightarrow>
     eval E data = Inr x \<and> shape x = [B, T, H] \<and> 0 < T \<and>
     eval E data_length = Inr l \<and> shape l = [B] \<and>
     eval E (conv_weight self) = Inr w \<and>
     shape w = [nat (num_filter_of self), H, nat (kernel_width (config self))] \<and>
     eval E (conv_bias self) = Inr bs \<and> shape bs = [nat (num_filter_of self)] \<and>
     1 \<le> kernel_width (config self) \<and> 1 \<le> num_hidden (config self) \<and>
     act_fun E (if act_type (config self) = ''glu'' then ''sigmoid''
                else act_type (config self)) \<noteq> None"

section \<open>A concrete forward pass\<close>

text \<open>
  The logistic function and the activations of MXNet over the reals, and a small block
  with its inputs, on which the properties below are run: one batch element, three time
  steps, one input channel, one hidden unit, the gated linear unit. The data is
  \<open>1, 2, 3\<close> along the time axis and the valid length is 2.
\<close>

definition sigmoid :: "real \<Rightarrow> real" where
  "sigmoid v = 1 / (1 + exp (- v))"

definition mx_acts :: "string \<Rightarrow> (real \<Rightarrow> real) option" where
  "mx_acts =
     [''relu'' \<mapsto> (\<lambda>v. max 0 v), ''sigmoid'' \<mapsto> sigmoid, ''tanh'' \<mapsto> tanh,
      ''softrelu'' \<mapsto> (\<lambda>v. ln (1 + exp v))]"

definition ex_block :: "string \<Rightarrow> int \<Rightarrow> ConvolutionBlock" where
  "ex_block pt k =
     \<lparr>prefix = ''c_'', pad_type = pt,
      config = \<lparr>kernel_width = k, num_hidden = 1, act_type = ''glu''\<rparr>,
      conv_weight = Variable ''c_conv_weight'', conv_bias = Variable ''c_conv_bias''\<rparr>"

definition ex_data :: "real tensor" where
  "ex_data = \<lparr>shape = [1, 3, 1], elt = (\<lambda>idx. real (idx ! 1) + 1)\<rparr>"

definition ex_data' :: "real tensor" where
  "ex_data' = \<lparr>shape = [1, 3, 1], elt = (\<lambda>idx. if idx ! 1 < 2 then real (idx ! 1) + 1 else 7)\<rparr>"

definition ex_len :: "real \<Rightarrow> real tensor" where
  "ex_len n = \<lparr>shape = [1], elt = (\<lambda>idx. n)\<rparr>"

definition ex_weight :: "nat \<Rightarrow> real tensor" where
  "ex_weight k =
     \<lparr>shape = [2, 1, k], elt = (\<lambda>idx. if idx ! 0 = 0 \<and> idx ! 2 = 0 then 10 else 1)\<rparr>"

definition ex_bias :: "real tensor" where
  "ex_bias = \<lparr>shape = [2], elt = (\<lambda>idx. 0)\<rparr>"

definition ex_env :: "int \<Rightarrow> real tensor \<Rightarrow> real \<Rightarrow> real env" where
  "ex_env k d n =
     \<lparr>vars = [''data'' \<mapsto> d, ''len'' \<mapsto> ex_len n, ''c_conv_weight'' \<mapsto> ex_weight (nat k),
              ''c_conv_bias'' \<mapsto> ex_bias],
      act_fun = mx_acts, len_val = (\<lambda>v. \<lfloor>v\<rfloor>)\<rparr>"

section \<open>The operators on tensors of three axes\<close>

lemma swapaxes01_is3:
  assumes "is3 d a b c F"
  shows "\<exists>y. mx_swapaxes 0 1 d = Inr y \<and> is3 y b a c (\<lambda>i j k. F j i k)"
  using assms by (simp add: mx_swapaxes_def is3_def)

lemma swapaxes12_is3:
  assumes "is3 d a b c F"
  shows "\<exists>y. mx_swapaxes 1 2 d = Inr y \<and> is3 y a c b (\<lambda>i j k. F i k j)"
  using assms by (simp add: mx_swapaxes_def is3_def)

lemma SequenceMask_is3:
  assumes "is3 d t b h F" and "shape l = [b]"
  shows "\<exists>y. mx_SequenceMask lenv d l = Inr y \<and>
           is3 y t b h (\<lambda>i j k. if int i < lenv (elt l [j]) then F i j k else 0)"
  using assms by (simp add: mx_SequenceMask_def is3_def)

lemma src_index_120: "src_index [1, 2, 0] [i, j, k] = [k, i, j]"
  by (simp add: src_index_def)

lemma src_index_120': "src_index [Suc 0, 2, 0] [i, j, k] = [k, i, j]"
  using src_index_120 [of i j k] by simp

lemma upt3: "[0..<3] = [0, 1, 2]"
  by (simp add: upt_rec)

lemma transpose120_is3:
  assumes "is3 d t b h F"
  shows "\<exists>y. mx_transpose [1, 2, 0] d = Inr y \<and> is3 y b h t (\<lambda>i j k. F k i j)"
  using assms by (simp add: mx_transpose_def is3_def src_index_120' upt3)

lemma sum_list_upt_cong:
  "(\<And>i. i < n \<Longrightarrow> f i = g i) \<Longrightarrow> (\<Sum>i\<leftarrow>[0..<n]. f i) = (\<Sum>i\<leftarrow>[0..<n]. (g i :: 'a::monoid_add))"
  by (rule arg_cong [where f = sum_list]) simp

lemma Convolution_is3:
  fixes d :: "'a::semiring_0 tensor"
  assumes d: "is3 d b c width G"
    and pv: "pad = Some p"
    and k: "1 \<le> k" and nf: "1 \<le> nf" and p: "0 \<le> p" and fit: "k \<le> int width + 2 * p"
    and w: "shape w = [nat nf, c, nat k]" and bs: "shape bs = [nat nf]"
  shows "\<exists>y. mx_Convolution pad k nf d w bs = Inr y \<and>
           is3 y b (nat nf) (nat (int width + 2 * p - k + 1))
             (conv_val w bs c (nat k) (nat p) width G)"
proof -
  have sh: "shape d = [b, c, width]" using d by (simp add: is3_def)
  have rd: "padded_read d (nat p) width i cc (t + j) =
            (if nat p \<le> t + j \<and> t + j < nat p + width then G i cc (t + j - nat p) else 0)"
    if "i < b" "cc < c" for i cc t j
    using d that by (auto simp add: padded_read_def is3_def)
  have el: "elt bs [f] + (\<Sum>cc\<leftarrow>[0..<c]. \<Sum>j\<leftarrow>[0..<nat k].
              elt w [f, cc, j] * padded_read d (nat p) width i cc (t + j)) =
            conv_val w bs c (nat k) (nat p) width G i f t"
    if "i < b" for i f t
    unfolding conv_val_def
    by (intro arg_cong2 [where f = "(+)"] refl sum_list_upt_cong) (simp add: rd that)
  show ?thesis
    using k nf p fit w bs sh el pv by (simp add: mx_Convolution_def is3_def Let_def)
qed

lemma slice_axis2_is3:
  assumes d: "is3 d a b c F" and e: "0 < e" "e \<le> int c"
  shows "\<exists>y. mx_slice_axis 2 0 e d = Inr y \<and> is3 y a b (nat e) F"
  using assms by (simp add: mx_slice_axis_def is3_def)

lemma split2_is3:
  assumes d: "is3 d a (2 * n) c F" and i: "i < 2"
  shows "\<exists>y. mx_split 2 1 i d = Inr y \<and> is3 y a n c (\<lambda>b h t. F b (h + i * n) t)"
proof -
  from i have "i = 0 \<or> i = 1" by auto
  then show ?thesis
    using d by (auto simp add: mx_split_def is3_def)
qed

lemma Activation_is3:
  assumes d: "is3 d a b c F" and f: "acts name = Some f"
  shows "\<exists>y. mx_Activation acts name d = Inr y \<and> is3 y a b c (\<lambda>i j k. f (F i j k))"
  using assms by (simp add: mx_Activation_def is3_def)

lemma bcast_index_3:
  "i < a \<Longrightarrow> j < b \<Longrightarrow> k < c \<Longrightarrow> bcast_index [a, b, c] [i, j, k] = [i, j, k]"
  by (auto simp add: bcast_index_def)

lemma broadcast_mul_is3:
  assumes x: "is3 x a b c F" and y: "is3 y a b c G"
  shows "\<exists>z. mx_broadcast_mul x y = Inr z \<and> is3 z a b c (\<lambda>i j k. F i j k * G i j k)"
  using assms by (simp add: mx_broadcast_mul_def is3_def bcast_index_3)

section \<open>What \<^verbatim>\<open>__call__\<close> returns and what the result computes\<close>

lemma call_padding_skip: "call_padding self True = Inr None"
  by (simp add: call_padding_def)

lemma call_padding_left:
  "pad_type self = ''left'' \<Longrightarrow>
   call_padding self False = Inr (Some (kernel_width (config self) - 1))"
  by (simp add: call_padding_def)

lemma call_padding_centered_odd:
  "pad_type self = ''centered'' \<Longrightarrow> kernel_width (config self) mod 2 = 1 \<Longrightarrow>
   call_padding self False = Inr (Some (int_half (kernel_width (config self) - 1)))"
  by (simp add: call_padding_def check_condition_def)

lemma call_padding_centered_even:
  "pad_type self = ''centered'' \<Longrightarrow> kernel_width (config self) mod 2 \<noteq> 1 \<Longrightarrow>
   call_padding self False =
     Inl (SockeyeError (''Only odd kernel widths supported, but got '' @
                          str_int (kernel_width (config self))))"
  by (simp add: call_padding_def check_condition_def)

lemma call_padding_unknown:
  "pad_type self \<noteq> ''left'' \<Longrightarrow> pad_type self \<noteq> ''centered'' \<Longrightarrow>
   call_padding self False = Inl (ValueError (''Unknown pad type '' @ pad_type self))"
  by (simp add: call_padding_def)

lemma call_raises:
  "call_padding self skip = Inl e \<Longrightarrow>
   ConvolutionBlock_call self data dl seq_len skip tr = (Inl e, tr)"
  by (simp add: ConvolutionBlock_call_def)

lemma call_None_raises:
  "call_padding self skip = Inr None \<Longrightarrow>
   ConvolutionBlock_call self data dl seq_len skip tr =
     (Inl invalid_pad, tr @ [''swapaxes'', ''SequenceMask'', ''transpose''])"
  by (simp add: ConvolutionBlock_call_def sym_swapaxes_def sym_SequenceMask_def
      sym_transpose_def sym_Convolution_def Let_def)

lemma call_skip_raises:
  "ConvolutionBlock_call self data dl seq_len True tr =
     (Inl invalid_pad, tr @ [''swapaxes'', ''SequenceMask'', ''transpose''])"
  by (rule call_None_raises [OF call_padding_skip])

lemma call_returns:
  "call_padding self skip = Inr (Some p) \<Longrightarrow>
   ConvolutionBlock_call self data dl seq_len skip tr =
     (Inr (block_graph self data dl seq_len skip (Some p)),
      tr @ [''swapaxes'', ''SequenceMask'', ''transpose'', ''Convolution''] @
        (if \<not> skip \<and> pad_type self = ''left'' then [''slice_axis''] else []) @
        (if act_type (config self) = ''glu''
         then [''split'', ''Activation'', ''broadcast_mul''] else [''Activation'']) @
        [''swapaxes''])"
  by (simp add: ConvolutionBlock_call_def sym_swapaxes_def sym_SequenceMask_def
      sym_transpose_def sym_Convolution_def sym_slice_axis_def sym_split2_def
      sym_Activation_def sym_broadcast_mul_def conv_node_def masked_input_def
      activation_node_def num_filter_of_def block_graph_def Let_def)

lemma is3_tensor: "shape x = [a, b, c] \<Longrightarrow> is3 x a b c (\<lambda>i j k. elt x [i, j, k])"
  by (simp add: is3_def)

lemma eval_masked_input:
  fixes E :: "'a::semiring_0 env"
  assumes x: "eval E data = Inr x" "shape x = [B, T, H]"
    and l: "eval E dl = Inr l" "shape l = [B]"
  shows "\<exists>m. eval E (masked_input data dl) = Inr m \<and>
           is3 m B H T (masked_val (len_val E) x l)"
proof -
  from swapaxes01_is3 [OF is3_tensor [OF x(2)]]
  obtain y1 where y1: "mx_swapaxes 0 1 x = Inr y1"
    "is3 y1 T B H (\<lambda>i j k. elt x [j, i, k])" by blast
  from SequenceMask_is3 [OF y1(2) l(2), of "len_val E"]
  obtain y2 where y2: "mx_SequenceMask (len_val E) y1 l = Inr y2"
    "is3 y2 T B H (\<lambda>i j k. if int i < len_val E (elt l [j]) then elt x [j, i, k] else 0)"
    by blast
  from transpose120_is3 [OF y2(2)]
  obtain y3 where y3: "mx_transpose [1, 2, 0] y2 = Inr y3"
    "is3 y3 B H T (\<lambda>i j k. if int k < len_val E (elt l [i]) then elt x [i, k, j] else 0)"
    by blast
  have "eval E (masked_input data dl) = Inr y3"
    using x(1) l(1) y1(1) y2(1) y3(1) by (simp add: masked_input_def bind_err_def)
  moreover have "is3 y3 B H T (masked_val (len_val E) x l)"
    using y3(2) by (simp add: is3_def masked_val_def)
  ultimately show ?thesis by blast
qed

lemma eval_conv_node:
  fixes E :: "'a::semiring_0 env"
  assumes v: "valid_inputs E self data dl B T H x l w bs"
    and p: "padding = Some p" "0 \<le> p"
    and fit: "kernel_width (config self) \<le> int T + 2 * p"
  shows "\<exists>cv. eval E (conv_node self data dl padding) = Inr cv \<and>
           is3 cv B (nat (num_filter_of self))
             (nat (int T + 2 * p - kernel_width (config self) + 1))
             (conv_val w bs H (nat (kernel_width (config self))) (nat p) T
                (masked_val (len_val E) x l))"
proof -
  from v have x: "eval E data = Inr x" "shape x = [B, T, H]"
    and l: "eval E dl = Inr l" "shape l = [B]"
    and w: "eval E (conv_weight self) = Inr w"
      "shape w = [nat (num_filter_of self), H, nat (kernel_width (config self))]"
    and bs: "eval E (conv_bias self) = Inr bs" "shape bs = [nat (num_filter_of self)]"
    and k: "1 \<le> kernel_width (config self)" and nh: "1 \<le> num_hidden (config self)"
    by (simp_all add: valid_inputs_def)
  from nh have nf: "1 \<le> num_filter_of self" by (simp add: num_filter_of_def)
  from eval_masked_input [OF x l]
  obtain m where m: "eval E (masked_input data dl) = Inr m"
    "is3 m B H T (masked_val (len_val E) x l)" by blast
  from Convolution_is3 [OF m(2) p(1) k nf p(2) fit w(2) bs(2)]
  obtain cv where cv: "mx_Convolution padding (kernel_width (config self))
      (num_filter_of self) m w bs = Inr cv"
    "is3 cv B (nat (num_filter_of self))
       (nat (int T + 2 * p - kernel_width (config self) + 1))
       (conv_val w bs H (nat (kernel_width (config self))) (nat p) T
          (masked_val (len_val E) x l))" by blast
  have "eval E (conv_node self data dl padding) = Inr cv"
    using m(1) w(1) bs(1) cv(1) by (simp add: conv_node_def bind_err_def)
  with cv(2) show ?thesis by blast
qed

lemma eval_activation_node:
  fixes E :: "'a::semiring_0 env"
  assumes c: "eval E c = Inr cv" "is3 cv B (nat (num_filter_of self)) W F"
    and nh: "1 \<le> num_hidden (config self)"
    and act: "act_fun E (if act_type (config self) = ''glu'' then ''sigmoid''
                         else act_type (config self)) \<noteq> None"
  shows "\<exists>y. eval E (activation_node self c) = Inr y \<and>
           is3 y B (nat (num_hidden (config self))) W (act_val self (act_fun E) F)"
proof (cases "act_type (config self) = ''glu''")
  case True
  let ?N = "nat (num_hidden (config self))"
  from act True obtain sg where sg: "act_fun E ''sigmoid'' = Some sg" by auto
  from True nh have nf: "nat (num_filter_of self) = 2 * ?N"
    by (simp add: num_filter_of_def)
  from c(2) nf have c2: "is3 cv B (2 * ?N) W F" by simp
  from split2_is3 [OF c2, of 0]
  obtain a where a: "mx_split 2 1 0 cv = Inr a" "is3 a B ?N W (\<lambda>b h t. F b h t)"
    by auto
  from split2_is3 [OF c2, of 1]
  obtain g where g: "mx_split 2 1 1 cv = Inr g" "is3 g B ?N W (\<lambda>b h t. F b (h + ?N) t)"
    by auto
  from Activation_is3 [where acts = "act_fun E" and name = "''sigmoid''", OF g(2) sg]
  obtain s where s: "mx_Activation (act_fun E) ''sigmoid'' g = Inr s"
    "is3 s B ?N W (\<lambda>b h t. sg (F b (h + ?N) t))" by blast
  from broadcast_mul_is3 [OF a(2) s(2)]
  obtain y where y: "mx_broadcast_mul a s = Inr y"
    "is3 y B ?N W (\<lambda>b h t. F b h t * sg (F b (h + ?N) t))" by blast
  have "eval E (activation_node self c) = Inr y"
    using True c(1) a(1) g(1) s(1) y(1) by (simp add: activation_node_def bind_err_def)
  moreover have "is3 y B ?N W (act_val self (act_fun E) F)"
    using y(2) True sg by (simp add: is3_def act_val_def)
  ultimately show ?thesis by blast
next
  case False
  from act False obtain f where f: "act_fun E (act_type (config self)) = Some f" by auto
  from False have nf: "num_filter_of self = num_hidden (config self)"
    by (simp add: num_filter_of_def)
  from c(2) nf have c2: "is3 cv B (nat (num_hidden (config self))) W F" by simp
  from Activation_is3 [where acts = "act_fun E" and name = "act_type (config self)", OF c2 f]
  obtain y where y: "mx_Activation (act_fun E) (act_type (config self)) cv = Inr y"
    "is3 y B (nat (num_hidden (config self))) W (\<lambda>b h t. f (F b h t))" by blast
  have "eval E (activation_node self c) = Inr y"
    using False c(1) y(1) by (simp add: activation_node_def bind_err_def)
  moreover have "is3 y B (nat (num_hidden (config self))) W (act_val self (act_fun E) F)"
    using y(2) False f by (simp add: is3_def act_val_def)
  ultimately show ?thesis by blast
qed

lemma eval_sliced_conv:
  fixes E :: "'a::semiring_0 env"
  assumes v: "valid_inputs E self data dl B T H x l w bs"
    and p: "padding = Some p" "0 \<le> p"
    and fit: "kernel_width (config self) \<le> int T + 2 * p"
    and sl: "\<not> skip \<and> pad_type self = ''left'' \<Longrightarrow>
               seq_len = int T \<and> kernel_width (config self) \<le> 2 * p + 1"
    and W: "W = (if \<not> skip \<and> pad_type self = ''left'' then T
                 else nat (int T + 2 * p - kernel_width (config self) + 1))"
  shows "\<exists>sv. eval E (if \<not> skip \<and> pad_type self = ''left''
                      then SliceAxis (conv_node self data dl padding) 2 0 seq_len
                      else conv_node self data dl padding) = Inr sv \<and>
           is3 sv B (nat (num_filter_of self)) W
             (conv_val w bs H (nat (kernel_width (config self))) (nat p) T
                (masked_val (len_val E) x l))"
proof -
  let ?F = "conv_val w bs H (nat (kernel_width (config self))) (nat p) T
              (masked_val (len_val E) x l)"
  let ?Wc = "nat (int T + 2 * p - kernel_width (config self) + 1)"
  let ?c = "conv_node self data dl padding"
  from v have T: "0 < T" by (simp add: valid_inputs_def)
  from eval_conv_node [OF v p fit]
  obtain cv where cv: "eval E ?c = Inr cv" "is3 cv B (nat (num_filter_of self)) ?Wc ?F"
    by blast
  show ?thesis
  proof (cases "\<not> skip \<and> pad_type self = ''left''")
    case True
    with sl have e: "seq_len = int T" "kernel_width (config self) \<le> 2 * p + 1" by auto
    from e T have "0 < seq_len" "seq_len \<le> int ?Wc" by auto
    from slice_axis2_is3 [OF cv(2) this]
    obtain sv where sv: "mx_slice_axis 2 0 seq_len cv = Inr sv"
      "is3 sv B (nat (num_filter_of self)) (nat seq_len) ?F" by blast
    have "eval E (SliceAxis ?c 2 0 seq_len) = Inr sv"
      using cv(1) sv(1) by (simp add: bind_err_def)
    moreover have "is3 sv B (nat (num_filter_of self)) W ?F"
      using sv(2) True W e(1) by simp
    ultimately show ?thesis using True by auto
  next
    case False
    with cv W show ?thesis by auto
  qed
qed

lemma Convolution_shape:
  fixes d :: "'a::semiring_0 tensor"
  assumes "mx_Convolution pad k nf d w bs = Inr y"
  shows "\<exists>B W. shape y = [B, nat nf, W] \<and> 1 \<le> nf"
  using assms
  by (auto simp add: mx_Convolution_def split: option.splits list.splits if_splits)

lemma bind_err_Inr: "bind_err r f = Inr y \<longleftrightarrow> (\<exists>v. r = Inr v \<and> f v = Inr y)"
  by (cases r) (simp_all add: bind_err_def)

lemma eval_Convolution_shape:
  fixes E :: "'a::semiring_0 env"
  assumes "eval E (Convolution d w b pad k nf) = Inr y"
  shows "\<exists>B W. shape y = [B, nat nf, W] \<and> 1 \<le> nf"
  using assms Convolution_shape by (fastforce simp add: bind_err_Inr)

lemma eval_SliceAxis_Convolution_shape:
  fixes E :: "'a::semiring_0 env"
  assumes "eval E (SliceAxis (Convolution d w b pad k nf) 2 0 e) = Inr y"
  shows "\<exists>B W. shape y = [B, nat nf, W] \<and> 1 \<le> nf"
proof -
  from assms obtain cv where cv: "eval E (Convolution d w b pad k nf) = Inr cv"
    and y: "mx_slice_axis 2 0 e cv = Inr y"
    by (auto simp add: bind_err_Inr)
  from eval_Convolution_shape [OF cv] obtain B W where "shape cv = [B, nat nf, W]" "1 \<le> nf"
    by blast
  with y show ?thesis
    by (auto simp add: mx_slice_axis_def Let_def split: if_splits)
qed

lemma eval_swap_activation:
  fixes E :: "'a::semiring_0 env"
  assumes c: "eval E c = Inr cv" "is3 cv B (nat (num_filter_of self)) W F"
    and nh: "1 \<le> num_hidden (config self)"
    and act: "act_fun E (if act_type (config self) = ''glu'' then ''sigmoid''
                         else act_type (config self)) \<noteq> None"
  shows "\<exists>y. eval E (SwapAxes (activation_node self c) 1 2) = Inr y \<and>
           is3 y B W (nat (num_hidden (config self)))
             (\<lambda>b t h. act_val self (act_fun E) F b h t)"
proof -
  from eval_activation_node [OF c nh act]
  obtain a where a: "eval E (activation_node self c) = Inr a"
    "is3 a B (nat (num_hidden (config self))) W (act_val self (act_fun E) F)" by blast
  from swapaxes12_is3 [OF a(2)]
  obtain y where y: "mx_swapaxes 1 2 a = Inr y"
    "is3 y B W (nat (num_hidden (config self)))
       (\<lambda>b t h. act_val self (act_fun E) F b h t)" by blast
  have "eval E (SwapAxes (activation_node self c) 1 2) = Inr y"
    using a(1) y(1) by (simp add: bind_err_def)
  with y(2) show ?thesis by blast
qed

lemma call_Inr_padding:
  assumes "ConvolutionBlock_call self data dl seq_len skip tr = (Inr out, tr')"
  shows "\<exists>p. call_padding self skip = Inr (Some p) \<and>
           out = block_graph self data dl seq_len skip (Some p)"
proof (cases "call_padding self skip")
  case (Inl e)
  from call_raises [OF Inl] assms show ?thesis by simp
next
  case (Inr padding)
  show ?thesis
  proof (cases padding)
    case None
    with Inr have "call_padding self skip = Inr None" by simp
    from call_None_raises [OF this] assms show ?thesis by simp
  next
    case (Some p)
    with Inr have "call_padding self skip = Inr (Some p)" by simp
    from call_returns [OF this] assms this show ?thesis by simp
  qed
qed

lemma call_Inr_not_skip:
  assumes "ConvolutionBlock_call self data dl seq_len skip tr = (Inr out, tr')"
  shows "\<not> skip"
  using assms call_skip_raises [of self data dl seq_len tr] by (cases skip) simp_all

lemma call_padding_Some_cases:
  assumes "call_padding self skip = Inr (Some p)"
  shows "pad_type self = ''left'' \<and> p = kernel_width (config self) - 1 \<or>
         pad_type self = ''centered'' \<and> kernel_width (config self) mod 2 = 1 \<and>
           p = int_half (kernel_width (config self) - 1)"
  using assms
  by (auto simp add: call_padding_def check_condition_def split: if_splits)

lemma eval_block_graph:
  fixes E :: "'a::semiring_0 env"
  assumes v: "valid_inputs E self data dl B T H x l w bs"
    and p: "padding = Some p" "0 \<le> p"
    and fit: "kernel_width (config self) \<le> int T + 2 * p"
    and sl: "\<not> skip \<and> pad_type self = ''left'' \<Longrightarrow>
               seq_len = int T \<and> kernel_width (config self) \<le> 2 * p + 1"
    and W: "W = (if \<not> skip \<and> pad_type self = ''left'' then T
                 else nat (int T + 2 * p - kernel_width (config self) + 1))"
  shows "\<exists>y. eval E (block_graph self data dl seq_len skip padding) = Inr y \<and>
           is3 y B W (nat (num_hidden (config self)))
             (\<lambda>b t h. act_val self (act_fun E)
                (conv_val w bs H (nat (kernel_width (config self))) (nat p) T
                   (masked_val (len_val E) x l)) b h t)"
proof -
  from v have nh: "1 \<le> num_hidden (config self)"
    and act: "act_fun E (if act_type (config self) = ''glu'' then ''sigmoid''
                         else act_type (config self)) \<noteq> None"
    by (simp_all add: valid_inputs_def)
  from eval_sliced_conv [OF v p fit sl W]
  obtain sv where sv:
    "eval E (if \<not> skip \<and> pad_type self = ''left''
             then SliceAxis (conv_node self data dl padding) 2 0 seq_len
             else conv_node self data dl padding) = Inr sv"
    "is3 sv B (nat (num_filter_of self)) W
       (conv_val w bs H (nat (kernel_width (config self))) (nat p) T
          (masked_val (len_val E) x l))"
    by blast
  from eval_swap_activation [OF sv nh act] show ?thesis
    by (simp add: block_graph_def)
qed

lemma ex_valid_inputs:
  assumes d: "shape d = [1, 3, 1]" and k: "1 \<le> k"
  shows "valid_inputs (ex_env k d n) (ex_block pt k) (Variable ''data'') (Variable ''len'')
           1 3 1 d (ex_len n) (ex_weight (nat k)) ex_bias"
  using d k
  by (simp add: valid_inputs_def ex_env_def ex_block_def ex_len_def ex_weight_def
      ex_bias_def num_filter_of_def mx_acts_def)

lemma upt2: "[0..<2] = [0, 1]"
  by (simp add: upt_rec)

lemma ex_block_fields:
  "kernel_width (config (ex_block pt k)) = k"
  "num_hidden (config (ex_block pt k)) = 1"
  "act_type (config (ex_block pt k)) = ''glu''"
  "pad_type (ex_block pt k) = pt"
  "num_filter_of (ex_block pt k) = 2"
  by (simp_all add: ex_block_def num_filter_of_def)

lemma ex_left_padding: "call_padding (ex_block ''left'' 2) False = Inr (Some 1)"
  using call_padding_left [of "ex_block ''left'' 2"] by (simp add: ex_block_def)

lemma ex_left_call:
  "ConvolutionBlock_call (ex_block ''left'' 2) (Variable ''data'') (Variable ''len'') 3 False [] =
     (Inr (block_graph (ex_block ''left'' 2) (Variable ''data'') (Variable ''len'') 3 False
             (Some 1)),
      [''swapaxes'', ''SequenceMask'', ''transpose'', ''Convolution'', ''slice_axis'',
       ''split'', ''Activation'', ''broadcast_mul'', ''swapaxes''])"
  using call_returns [OF ex_left_padding, of "Variable ''data''" "Variable ''len''" 3 "[]"]
  by (simp add: ex_block_def)

lemma ex_left_valid:
  "valid_inputs (ex_env 2 ex_data 2) (ex_block ''left'' 2) (Variable ''data'') (Variable ''len'')
     1 3 1 ex_data (ex_len 2) (ex_weight (nat 2)) ex_bias"
  by (rule ex_valid_inputs) (simp_all add: ex_data_def)

lemma ex_left_sliced:
  "\<exists>sv. eval (ex_env 2 ex_data 2)
          (SliceAxis (conv_node (ex_block ''left'' 2) (Variable ''data'') (Variable ''len'')
                        (Some 1)) 2 0 3) = Inr sv \<and>
        is3 sv 1 2 3
          (conv_val (ex_weight 2) ex_bias 1 2 1 3
             (masked_val (len_val (ex_env 2 ex_data 2)) ex_data (ex_len 2)))"
proof -
  let ?self = "ex_block ''left'' 2"
  have k: "kernel_width (config ?self) = 2" and pt: "pad_type ?self = ''left''"
    and nf: "num_filter_of ?self = 2"
    by (simp_all add: ex_block_def num_filter_of_def)
  have p: "Some (1::int) = Some 1" "(0::int) \<le> 1"
    by simp_all
  have fit: "kernel_width (config ?self) \<le> int 3 + 2 * 1" unfolding k by simp
  have sl: "\<not> False \<and> pad_type ?self = ''left'' \<Longrightarrow>
               (3::int) = int 3 \<and> kernel_width (config ?self) \<le> 2 * 1 + 1"
    unfolding k by simp
  have W: "(3::nat) = (if \<not> False \<and> pad_type ?self = ''left'' then 3
                 else nat (int 3 + 2 * 1 - kernel_width (config ?self) + 1))"
    unfolding pt by simp
  from eval_sliced_conv [OF ex_left_valid p fit sl W] show ?thesis
    unfolding k pt nf by simp
qed

lemma ex_left_conv_vals:
  "conv_val (ex_weight 2) ex_bias 1 2 1 3
     (masked_val (len_val (ex_env 2 ex_data 2)) ex_data (ex_len 2)) 0 0 1 = 12"
  "conv_val (ex_weight 2) ex_bias 1 2 1 3
     (masked_val (len_val (ex_env 2 ex_data 2)) ex_data (ex_len 2)) 0 1 1 = 3"
  by (simp_all add: conv_val_def masked_val_def ex_weight_def ex_bias_def ex_data_def
      ex_len_def ex_env_def upt2)

lemma int_half_odd:
  assumes "1 \<le> k" and "k mod 2 = 1"
  shows "int_half (k - 1) = (k - 1) div 2" and "2 * int_half (k - 1) = k - 1"
    and "0 \<le> int_half (k - 1)"
  using assms by (simp_all add: int_half_def) presburger+

lemma conv_val_causal:
  fixes G G' :: "nat \<Rightarrow> nat \<Rightarrow> nat \<Rightarrow> 'a::semiring_0"
  assumes same: "\<And>c s. c < channel \<Longrightarrow> s \<le> t \<Longrightarrow> G' b c s = G b c s"
    and k: "0 < k"
  shows "conv_val w bs channel k (k - 1) width G' b f t =
         conv_val w bs channel k (k - 1) width G b f t"
  unfolding conv_val_def
proof (intro arg_cong2 [where f = "(+)"] refl sum_list_upt_cong)
  fix c j
  assume c: "c < channel" and j: "j < k"
  have "t + j - (k - 1) \<le> t" using j by arith
  from same [OF c this]
  show "elt w [f, c, j] *
          (if k - 1 \<le> t + j \<and> t + j < k - 1 + width then G' b c (t + j - (k - 1)) else 0) =
        elt w [f, c, j] *
          (if k - 1 \<le> t + j \<and> t + j < k - 1 + width then G b c (t + j - (k - 1)) else 0)"
    by simp
qed

lemma act_val_cong:
  assumes "F' b h t = F b h t"
    and "F' b (h + nat (num_hidden (config self))) t = F b (h + nat (num_hidden (config self))) t"
  shows "act_val self acts F' b h t = act_val self acts F b h t"
  using assms by (simp add: act_val_def)

lemma str_int_4: "str_int 4 = ''4''"
  by code_simp

lemma left_graph_value:
  fixes E :: "'a::semiring_0 env"
  assumes left: "pad_type self = ''left''"
    and v: "valid_inputs E self data dl B T H x l w bs"
  shows "\<exists>y. eval E (block_graph self data dl (int T) False
                      (Some (kernel_width (config self) - 1))) = Inr y \<and>
           is3 y B T (nat (num_hidden (config self)))
             (\<lambda>b t h. act_val self (act_fun E)
                (conv_val w bs H (nat (kernel_width (config self)))
                   (nat (kernel_width (config self)) - 1) T
                   (masked_val (len_val E) x l)) b h t)"
proof -
  let ?k = "kernel_width (config self)"
  from v have k: "1 \<le> ?k" and T: "0 < T" by (simp_all add: valid_inputs_def)
  have p: "Some (?k - 1) = Some (?k - 1)" "0 \<le> ?k - 1"
    using k by simp_all
  have fit: "?k \<le> int T + 2 * (?k - 1)" using k T by simp
  have sl: "\<not> False \<and> pad_type self = ''left'' \<Longrightarrow>
              int T = int T \<and> ?k \<le> 2 * (?k - 1) + 1" using k by simp
  have W: "T = (if \<not> False \<and> pad_type self = ''left'' then T
                else nat (int T + 2 * (?k - 1) - ?k + 1))" using left by simp
  have n: "nat (?k - 1) = nat ?k - 1" using k by simp
  from eval_block_graph [OF v p fit sl W] show ?thesis unfolding n .
qed

lemma centered_graph_value:
  fixes E :: "'a::semiring_0 env"
  assumes cen: "pad_type self = ''centered''"
    and odd: "kernel_width (config self) mod 2 = 1"
    and v: "valid_inputs E self data dl B T H x l w bs"
  shows "\<exists>y. eval E (block_graph self data dl seq_len False
                      (Some ((kernel_width (config self) - 1) div 2))) = Inr y \<and>
           is3 y B T (nat (num_hidden (config self)))
             (\<lambda>b t h. act_val self (act_fun E)
                (conv_val w bs H (nat (kernel_width (config self)))
                   (nat ((kernel_width (config self) - 1) div 2)) T
                   (masked_val (len_val E) x l)) b h t)"
proof -
  let ?k = "kernel_width (config self)"
  let ?p = "(?k - 1) div 2"
  from v have k: "1 \<le> ?k" and T: "0 < T" by (simp_all add: valid_inputs_def)
  have two: "2 * ?p = ?k - 1" using odd by presburger
  have p: "Some ?p = Some ?p" "0 \<le> ?p"
    using k by simp_all
  have fit: "?k \<le> int T + 2 * ?p" unfolding two using T by simp
  have sl: "\<not> False \<and> pad_type self = ''left'' \<Longrightarrow>
              seq_len = int T \<and> ?k \<le> 2 * ?p + 1" using cen by simp
  have W: "T = (if \<not> False \<and> pad_type self = ''left'' then T
                else nat (int T + 2 * ?p - ?k + 1))" unfolding two by simp
  from eval_block_graph [OF v p fit sl W] show ?thesis .
qed

lemma centered_conv_value:
  fixes E :: "'a::semiring_0 env"
  assumes odd: "kernel_width (config self) mod 2 = 1"
    and v: "valid_inputs E self data dl B T H x l w bs"
  shows "\<exists>cv. eval E (conv_node self data dl
                       (Some ((kernel_width (config self) - 1) div 2))) = Inr cv \<and>
           is3 cv B (nat (num_filter_of self)) T
             (conv_val w bs H (nat (kernel_width (config self)))
                (nat ((kernel_width (config self) - 1) div 2)) T
                (masked_val (len_val E) x l))"
proof -
  let ?k = "kernel_width (config self)"
  let ?p = "(?k - 1) div 2"
  from v have k: "1 \<le> ?k" and T: "0 < T" by (simp_all add: valid_inputs_def)
  have two: "2 * ?p = ?k - 1" using odd by presburger
  have p: "Some ?p = Some ?p" "0 \<le> ?p"
    using k by simp_all
  have fit: "?k \<le> int T + 2 * ?p" unfolding two using T by simp
  have W: "nat (int T + 2 * ?p - ?k + 1) = T" unfolding two by simp
  from eval_conv_node [OF v p fit] show ?thesis unfolding W .
qed

lemma left_conv_value:
  fixes E :: "'a::semiring_0 env"
  assumes v: "valid_inputs E self data dl B T H x l w bs"
  shows "\<exists>cv. eval E (conv_node self data dl (Some (kernel_width (config self) - 1))) = Inr cv \<and>
           is3 cv B (nat (num_filter_of self)) (T + (nat (kernel_width (config self)) - 1))
             (conv_val w bs H (nat (kernel_width (config self)))
                (nat (kernel_width (config self)) - 1) T
                (masked_val (len_val E) x l))"
proof -
  let ?k = "kernel_width (config self)"
  from v have k: "1 \<le> ?k" and T: "0 < T" by (simp_all add: valid_inputs_def)
  have p: "Some (?k - 1) = Some (?k - 1)" "0 \<le> ?k - 1"
    using k by simp_all
  have fit: "?k \<le> int T + 2 * (?k - 1)" using k T by simp
  have W: "nat (int T + 2 * (?k - 1) - ?k + 1) = T + (nat ?k - 1)" using k by auto
  have n: "nat (?k - 1) = nat ?k - 1" using k by simp
  from eval_conv_node [OF v p fit] show ?thesis unfolding W n .
qed

lemma call_left:
  assumes "pad_type self = ''left''"
  shows "ConvolutionBlock_call self data dl seq_len False tr =
     (Inr (block_graph self data dl seq_len False (Some (kernel_width (config self) - 1))),
      tr @ [''swapaxes'', ''SequenceMask'', ''transpose'', ''Convolution'', ''slice_axis''] @
        (if act_type (config self) = ''glu''
         then [''split'', ''Activation'', ''broadcast_mul''] else [''Activation'']) @
        [''swapaxes''])"
  using call_returns [OF call_padding_left [OF assms], of data dl seq_len tr] assms by simp

lemma call_centered:
  assumes "pad_type self = ''centered''" and "kernel_width (config self) mod 2 = 1"
    and "1 \<le> kernel_width (config self)"
  shows "ConvolutionBlock_call self data dl seq_len False tr =
     (Inr (block_graph self data dl seq_len False
             (Some ((kernel_width (config self) - 1) div 2))),
      tr @ [''swapaxes'', ''SequenceMask'', ''transpose'', ''Convolution''] @
        (if act_type (config self) = ''glu''
         then [''split'', ''Activation'', ''broadcast_mul''] else [''Activation'']) @
        [''swapaxes''])"
  using call_returns [OF call_padding_centered_odd [OF assms(1,2)], of data dl seq_len tr]
    assms(1) int_half_odd(1) [OF assms(3,2)] by simp

lemma ex_centered_valid:
  "valid_inputs (ex_env 3 ex_data 2) (ex_block ''centered'' 3) (Variable ''data'')
     (Variable ''len'') 1 3 1 ex_data (ex_len 2) (ex_weight (nat 3)) ex_bias"
  by (rule ex_valid_inputs) (simp_all add: ex_data_def)

lemma self_in_nodes: "s \<in> set (nodes s)"
  by (cases s) simp_all

lemma conv_node_in_block_graph:
  "conv_node self data dl padding \<in> set (nodes (block_graph self data dl seq_len skip padding))"
  using self_in_nodes [of "conv_node self data dl padding"]
  by (simp add: block_graph_def activation_node_def)

lemma ex_eval_inputs:
  "eval (ex_env k d n) (Variable ''data'') = Inr d"
  "eval (ex_env k d n) (Variable ''len'') = Inr (ex_len n)"
  by (simp_all add: ex_env_def)

lemma masked_val_same:
  assumes "elt x' [b, t, h] = elt x [b, t, h]"
  shows "masked_val lenv x' l b h t = masked_val lenv x l b h t"
  using assms by (simp add: masked_val_def)

section \<open>Properties\<close>

subsection \<open>The gated linear unit\<close>

text \<open>
  C1. When the block is configured with the gated linear unit and \<^verbatim>\<open>__call__\<close> returns,
  the convolution of the returned graph has \<open>2 * num_hidden\<close> filters; the graph splits
  the convolution output (sliced first when the block pads to the left) into its two
  halves along the channel axis and multiplies the first by the sigmoid of the second.
  Whenever that convolution output evaluates, it has \<open>2 * num_hidden\<close> channels, the
  returned graph evaluates, it has exactly \<open>num_hidden\<close> channels, and each entry is
  \<open>gate_a * sigmoid gate_b\<close>.
\<close>

theorem glu_gates:
  assumes glu: "act_type (config self) = ''glu''"
    and ret: "ConvolutionBlock_call self data dl seq_len skip tr = (Inr out, tr')"
  shows "\<exists>padding c.
           conv_node self data dl padding =
             Convolution (masked_input data dl) (conv_weight self) (conv_bias self) padding
               (kernel_width (config self)) (2 * num_hidden (config self)) \<and>
           (c = conv_node self data dl padding \<or>
            c = SliceAxis (conv_node self data dl padding) 2 0 seq_len) \<and>
           out = SwapAxes (BroadcastMul (SplitOut c 2 1 0)
                             (Activation (SplitOut c 2 1 1) ''sigmoid'')) 1 2 \<and>
           (\<forall>(E::'a::semiring_0 env) cv sg.
              eval E c = Inr cv \<and> act_fun E ''sigmoid'' = Some sg \<longrightarrow>
              (\<exists>B W y. shape cv = [B, 2 * nat (num_hidden (config self)), W] \<and>
                 eval E out = Inr y \<and>
                 shape y = [B, W, nat (num_hidden (config self))] \<and>
                 (\<forall>b<B. \<forall>t<W. \<forall>h<nat (num_hidden (config self)).
                    elt y [b, t, h] =
                      elt cv [b, h, t] *
                      sg (elt cv [b, h + nat (num_hidden (config self)), t]))))"
proof -
  let ?N = "nat (num_hidden (config self))"
  from call_Inr_padding [OF ret] obtain p
    where out': "out = block_graph self data dl seq_len skip (Some p)" by blast
  define padding where "padding = Some p"
  have out: "out = block_graph self data dl seq_len skip padding"
    using out' by (simp add: padding_def)
  let ?conv = "conv_node self data dl padding"
  let ?c = "if \<not> skip \<and> pad_type self = ''left'' then SliceAxis ?conv 2 0 seq_len else ?conv"
  have conv: "?conv = Convolution (masked_input data dl) (conv_weight self) (conv_bias self)
      padding (kernel_width (config self)) (2 * num_hidden (config self))"
    using glu by (simp add: conv_node_def num_filter_of_def)
  have c: "?c = ?conv \<or> ?c = SliceAxis ?conv 2 0 seq_len" by simp
  have graph: "out = SwapAxes (BroadcastMul (SplitOut ?c 2 1 0)
                             (Activation (SplitOut ?c 2 1 1) ''sigmoid'')) 1 2"
    using out glu by (simp add: block_graph_def activation_node_def)
  have val: "\<exists>B W y. shape cv = [B, 2 * ?N, W] \<and> eval E out = Inr y \<and>
                 shape y = [B, W, ?N] \<and>
                 (\<forall>b<B. \<forall>t<W. \<forall>h<?N.
                    elt y [b, t, h] = elt cv [b, h, t] * sg (elt cv [b, h + ?N, t]))"
    if cv: "eval E ?c = Inr cv" and sg: "act_fun E ''sigmoid'' = Some sg"
    for E :: "'a::semiring_0 env" and cv sg
  proof -
    have "\<exists>B W. shape cv = [B, nat (2 * num_hidden (config self)), W] \<and>
                 1 \<le> 2 * num_hidden (config self)"
      using cv eval_Convolution_shape [of E] eval_SliceAxis_Convolution_shape [of E]
      unfolding conv by (auto split: if_splits)
    then obtain B W where sh: "shape cv = [B, nat (2 * num_hidden (config self)), W]"
      and nh: "1 \<le> num_hidden (config self)" by auto
    have nf: "nat (num_filter_of self) = nat (2 * num_hidden (config self))"
      using glu by (simp add: num_filter_of_def)
    have is3: "is3 cv B (nat (num_filter_of self)) W (\<lambda>i j k. elt cv [i, j, k])"
      using is3_tensor [OF sh] nf by simp
    have act: "act_fun E (if act_type (config self) = ''glu'' then ''sigmoid''
                         else act_type (config self)) \<noteq> None"
      using glu sg by simp
    from eval_swap_activation [OF cv is3 nh act]
    obtain y where y: "eval E (SwapAxes (activation_node self ?c) 1 2) = Inr y"
      "is3 y B W ?N (\<lambda>b t h. act_val self (act_fun E) (\<lambda>i j k. elt cv [i, j, k]) b h t)"
      by blast
    have "eval E out = Inr y" using y(1) out by (simp add: block_graph_def)
    moreover have "shape cv = [B, 2 * ?N, W]" using sh nh by (simp add: nat_mult_distrib)
    moreover have "shape y = [B, W, ?N]" using y(2) by (simp add: is3_def)
    moreover have "\<forall>b<B. \<forall>t<W. \<forall>h<?N.
        elt y [b, t, h] = elt cv [b, h, t] * sg (elt cv [b, h + ?N, t])"
      using y(2) glu sg by (simp add: is3_def act_val_def)
    ultimately show ?thesis by blast
  qed
  show ?thesis
  proof (rule exI [of _ padding], rule exI [of _ "?c"], intro conjI allI impI)
    show "conv_node self data dl padding =
             Convolution (masked_input data dl) (conv_weight self) (conv_bias self) padding
               (kernel_width (config self)) (2 * num_hidden (config self))"
      by (rule conv)
    show "?c = conv_node self data dl padding \<or>
          ?c = SliceAxis (conv_node self data dl padding) 2 0 seq_len"
      by (rule c)
    show "out = SwapAxes (BroadcastMul (SplitOut ?c 2 1 0)
                             (Activation (SplitOut ?c 2 1 1) ''sigmoid'')) 1 2"
      by (rule graph)
  next
    fix E :: "'a env" and cv sg
    assume "eval E ?c = Inr cv \<and> act_fun E ''sigmoid'' = Some sg"
    then show "\<exists>B W y. shape cv = [B, 2 * ?N, W] \<and> eval E out = Inr y \<and>
                 shape y = [B, W, ?N] \<and>
                 (\<forall>b<B. \<forall>t<W. \<forall>h<?N.
                    elt y [b, t, h] = elt cv [b, h, t] * sg (elt cv [b, h + ?N, t]))"
      using val by blast
  qed
qed

theorem glu_gates_witness:
  "act_type (config (ex_block ''left'' 2)) = ''glu'' \<and>
   ConvolutionBlock_call (ex_block ''left'' 2) (Variable ''data'') (Variable ''len'') 3 False [] =
     (Inr (block_graph (ex_block ''left'' 2) (Variable ''data'') (Variable ''len'') 3 False (Some 1)),
      [''swapaxes'', ''SequenceMask'', ''transpose'', ''Convolution'', ''slice_axis'',
       ''split'', ''Activation'', ''broadcast_mul'', ''swapaxes'']) \<and>
   (\<exists>y. eval (ex_env 2 ex_data 2)
           (block_graph (ex_block ''left'' 2) (Variable ''data'') (Variable ''len'') 3 False (Some 1)) =
           Inr y \<and>
         shape y = [1, 3, 1] \<and> elt y [0, 1, 0] = 12 * sigmoid 3)"
proof -
  let ?self = "ex_block ''left'' 2"
  let ?E = "ex_env 2 ex_data 2"
  let ?G = "block_graph ?self (Variable ''data'') (Variable ''len'') 3 False (Some 1)"
  let ?c = "SliceAxis (conv_node ?self (Variable ''data'') (Variable ''len'') (Some 1)) 2 0 3"
  have glu: "act_type (config ?self) = ''glu''" by (rule ex_block_fields)
  note ret = ex_left_call
  from ex_left_sliced obtain sv where sv: "eval ?E ?c = Inr sv"
    "is3 sv 1 2 3 (conv_val (ex_weight 2) ex_bias 1 2 1 3
          (masked_val (len_val ?E) ex_data (ex_len 2)))"
    by blast
  have a: "elt sv [0, 0, 1] = 12" and b: "elt sv [0, 1, 1] = 3"
    using sv(2) ex_left_conv_vals by (simp_all add: is3_def)
  have sg: "act_fun ?E ''sigmoid'' = Some sigmoid" by (simp add: ex_env_def mx_acts_def)
  from glu_gates [OF glu ret, where 'a = real] obtain padding c where
    g: "?G = SwapAxes (BroadcastMul (SplitOut c 2 1 0)
                         (Activation (SplitOut c 2 1 1) ''sigmoid'')) 1 2"
    and val: "\<forall>(E::real env) cv sg.
              eval E c = Inr cv \<and> act_fun E ''sigmoid'' = Some sg \<longrightarrow>
              (\<exists>B W y. shape cv = [B, 2 * nat (num_hidden (config ?self)), W] \<and>
                 eval E ?G = Inr y \<and>
                 shape y = [B, W, nat (num_hidden (config ?self))] \<and>
                 (\<forall>b<B. \<forall>t<W. \<forall>h<nat (num_hidden (config ?self)).
                    elt y [b, t, h] =
                      elt cv [b, h, t] *
                      sg (elt cv [b, h + nat (num_hidden (config ?self)), t])))"
    by blast
  from g have c: "c = ?c"
    by (simp add: block_graph_def activation_node_def ex_block_fields)
  from val [rule_format, of ?E sv sigmoid] sv(1) sg c obtain B W y where
    y: "shape sv = [B, 2 * nat (num_hidden (config ?self)), W]" "eval ?E ?G = Inr y"
      "shape y = [B, W, nat (num_hidden (config ?self))]"
      "\<forall>b<B. \<forall>t<W. \<forall>h<nat (num_hidden (config ?self)).
          elt y [b, t, h] =
            elt sv [b, h, t] * sigmoid (elt sv [b, h + nat (num_hidden (config ?self)), t])"
    by blast
  from y(1) sv(2) have BW: "B = 1" "W = 3" by (simp_all add: is3_def)
  have "shape y = [1, 3, 1]" using y(3) BW by (simp add: ex_block_fields)
  moreover have "elt y [0, 1, 0] = 12 * sigmoid 3"
    using y(4) [rule_format, of 0 1 0] BW a b by (simp add: ex_block_fields)
  ultimately show ?thesis using glu ret y(2) by blast
qed

subsection \<open>Masking\<close>

text \<open>
  C2, as the code has it. With \<^verbatim>\<open>skip_padding=True\<close> the sequence mask is not
  bypassed: the call makes \<^verbatim>\<open>swapaxes\<close>, \<^verbatim>\<open>SequenceMask\<close> and \<^verbatim>\<open>transpose\<close> on the
  input, and only then ends, in the convolution, which rejects \<^verbatim>\<open>pad=None\<close>.
\<close>

theorem skip_padding_still_masks_counterexample:
  "ConvolutionBlock_call (ex_block ''left'' 2) (Variable ''data'') (Variable ''len'') 3 True [] =
     (Inl invalid_pad, [''swapaxes'', ''SequenceMask'', ''transpose''])"
  using call_skip_raises [of "ex_block ''left'' 2" "Variable ''data''" "Variable ''len''" 3 "[]"]
  by simp

text \<open>
  C2, amended. On data of shape (batch, time, channel) with one length per batch
  element, the masked input that \<^verbatim>\<open>__call__\<close> builds is 0 at every time index at or
  past the length of its batch element and the data elsewhere. In every call that
  returns, the data argument of the convolution in the returned graph is that masked
  input, and the operators are called in that order. \<^verbatim>\<open>skip_padding=True\<close> does not
  bypass the masking: the call still starts with \<^verbatim>\<open>swapaxes\<close>, \<^verbatim>\<open>SequenceMask\<close> and
  \<^verbatim>\<open>transpose\<close> on the input.
\<close>

theorem masking_before_convolution:
  fixes E :: "'a::semiring_0 env"
  assumes x: "eval E data = Inr x" "shape x = [B, T, H]"
    and l: "eval E dl = Inr l" "shape l = [B]"
  shows "(\<exists>m. eval E (Transpose (SequenceMask (SwapAxes data 0 1) dl) [1, 2, 0]) = Inr m \<and>
            shape m = [B, H, T] \<and>
            (\<forall>b<B. \<forall>h<H. \<forall>t<T.
               elt m [b, h, t] =
                 (if int t < len_val E (elt l [b]) then elt x [b, t, h] else 0))) \<and>
         (\<forall>out tr'.
            ConvolutionBlock_call self data dl seq_len skip tr = (Inr out, tr') \<longrightarrow>
            (\<exists>p rest.
               Convolution (Transpose (SequenceMask (SwapAxes data 0 1) dl) [1, 2, 0])
                 (conv_weight self) (conv_bias self) (Some p) (kernel_width (config self))
                 (num_filter_of self) \<in> set (nodes out) \<and>
               tr' = tr @ [''swapaxes'', ''SequenceMask'', ''transpose'', ''Convolution''] @
                       rest)) \<and>
         (\<exists>rest. snd (ConvolutionBlock_call self data dl seq_len True tr) =
                   tr @ [''swapaxes'', ''SequenceMask'', ''transpose''] @ rest)"
proof (intro conjI allI impI)
  from eval_masked_input [OF x l]
  obtain m where m: "eval E (masked_input data dl) = Inr m"
    "is3 m B H T (masked_val (len_val E) x l)" by blast
  have m1: "eval E (Transpose (SequenceMask (SwapAxes data 0 1) dl) [1, 2, 0]) = Inr m"
    using m(1) by (simp add: masked_input_def)
  have m2: "shape m = [B, H, T]" using m(2) by (simp add: is3_def)
  have m3: "\<forall>b<B. \<forall>h<H. \<forall>t<T.
              elt m [b, h, t] = (if int t < len_val E (elt l [b]) then elt x [b, t, h] else 0)"
    using m(2) by (simp add: is3_def masked_val_def)
  from m1 m2 m3
  show "\<exists>m. eval E (Transpose (SequenceMask (SwapAxes data 0 1) dl) [1, 2, 0]) = Inr m \<and>
            shape m = [B, H, T] \<and>
            (\<forall>b<B. \<forall>h<H. \<forall>t<T.
               elt m [b, h, t] =
                 (if int t < len_val E (elt l [b]) then elt x [b, t, h] else 0))"
    by blast
next
  fix out tr'
  assume ret: "ConvolutionBlock_call self data dl seq_len skip tr = (Inr out, tr')"
  from call_Inr_padding [OF ret] obtain p
    where pad: "call_padding self skip = Inr (Some p)"
      and out: "out = block_graph self data dl seq_len skip (Some p)" by blast
  let ?rest = "(if \<not> skip \<and> pad_type self = ''left'' then [''slice_axis''] else []) @
        (if act_type (config self) = ''glu''
         then [''split'', ''Activation'', ''broadcast_mul''] else [''Activation'']) @
        [''swapaxes'']"
  from call_returns [OF pad, of data dl seq_len tr] ret
  have tr': "tr' = tr @ [''swapaxes'', ''SequenceMask'', ''transpose'', ''Convolution''] @ ?rest"
    by simp
  have node: "Convolution (Transpose (SequenceMask (SwapAxes data 0 1) dl) [1, 2, 0])
             (conv_weight self) (conv_bias self) (Some p) (kernel_width (config self))
             (num_filter_of self) \<in> set (nodes out)"
    using conv_node_in_block_graph [of self data dl "Some p" seq_len skip] out
    by (simp add: conv_node_def masked_input_def)
  from node tr'
  show "\<exists>p rest.
               Convolution (Transpose (SequenceMask (SwapAxes data 0 1) dl) [1, 2, 0])
                 (conv_weight self) (conv_bias self) (Some p) (kernel_width (config self))
                 (num_filter_of self) \<in> set (nodes out) \<and>
               tr' = tr @ [''swapaxes'', ''SequenceMask'', ''transpose'', ''Convolution''] @
                       rest"
    by blast
next
  show "\<exists>rest. snd (ConvolutionBlock_call self data dl seq_len True tr) =
                   tr @ [''swapaxes'', ''SequenceMask'', ''transpose''] @ rest"
    using call_skip_raises [of self data dl seq_len tr] by simp
qed

theorem masking_before_convolution_witness:
  "eval (ex_env 2 ex_data 2) (Variable ''data'') = Inr ex_data \<and> shape ex_data = [1, 3, 1] \<and>
   eval (ex_env 2 ex_data 2) (Variable ''len'') = Inr (ex_len 2) \<and> shape (ex_len 2) = [1] \<and>
   elt ex_data [0, 2, 0] = 3 \<and>
   ConvolutionBlock_call (ex_block ''left'' 2) (Variable ''data'') (Variable ''len'') 3 False [] =
     (Inr (block_graph (ex_block ''left'' 2) (Variable ''data'') (Variable ''len'') 3 False
             (Some 1)),
      [''swapaxes'', ''SequenceMask'', ''transpose'', ''Convolution'', ''slice_axis'',
       ''split'', ''Activation'', ''broadcast_mul'', ''swapaxes'']) \<and>
   (\<exists>m. eval (ex_env 2 ex_data 2)
           (Transpose (SequenceMask (SwapAxes (Variable ''data'') 0 1) (Variable ''len''))
              [1, 2, 0]) = Inr m \<and>
        shape m = [1, 1, 3] \<and> elt m [0, 0, 1] = 2 \<and> elt m [0, 0, 2] = 0) \<and>
   (\<exists>p. Convolution
           (Transpose (SequenceMask (SwapAxes (Variable ''data'') 0 1) (Variable ''len''))
              [1, 2, 0])
           (conv_weight (ex_block ''left'' 2)) (conv_bias (ex_block ''left'' 2)) (Some p)
           (kernel_width (config (ex_block ''left'' 2))) (num_filter_of (ex_block ''left'' 2)) \<in>
         set (nodes (block_graph (ex_block ''left'' 2) (Variable ''data'') (Variable ''len'') 3
                       False (Some 1))))"
proof -
  let ?E = "ex_env 2 ex_data 2"
  let ?self = "ex_block ''left'' 2"
  let ?G = "block_graph ?self (Variable ''data'') (Variable ''len'') 3 False (Some 1)"
  have sx: "shape ex_data = [1, 3, 1]" by (simp add: ex_data_def)
  have sl: "shape (ex_len 2) = [1]" by (simp add: ex_len_def)
  note inst = masking_before_convolution
      [where self = "?self" and seq_len = 3 and skip = False and tr = "[]",
       OF ex_eval_inputs(1) sx ex_eval_inputs(2) sl]
  from inst obtain m where m: "eval ?E
           (Transpose (SequenceMask (SwapAxes (Variable ''data'') 0 1) (Variable ''len''))
              [1, 2, 0]) = Inr m" "shape m = [1, 1, 3]"
    "\<forall>b<1. \<forall>h<1. \<forall>t<3.
        elt m [b, h, t] =
          (if int t < len_val ?E (elt (ex_len 2) [b]) then elt ex_data [b, t, h] else 0)"
    by blast
  from inst have "\<forall>out tr'.
            ConvolutionBlock_call ?self (Variable ''data'') (Variable ''len'') 3 False [] =
              (Inr out, tr') \<longrightarrow>
            (\<exists>p rest.
               Convolution
                 (Transpose (SequenceMask (SwapAxes (Variable ''data'') 0 1) (Variable ''len''))
                    [1, 2, 0])
                 (conv_weight ?self) (conv_bias ?self) (Some p) (kernel_width (config ?self))
                 (num_filter_of ?self) \<in> set (nodes out) \<and>
               tr' = [] @ [''swapaxes'', ''SequenceMask'', ''transpose'', ''Convolution''] @
                       rest)"
    by blast
  from this [rule_format, OF ex_left_call]
  have node: "\<exists>p. Convolution
           (Transpose (SequenceMask (SwapAxes (Variable ''data'') 0 1) (Variable ''len''))
              [1, 2, 0])
           (conv_weight ?self) (conv_bias ?self) (Some p)
           (kernel_width (config ?self)) (num_filter_of ?self) \<in> set (nodes ?G)"
    by blast
  have "elt m [0, 0, 1] = 2"
    using m(3) [rule_format, of 0 0 1] by (simp add: ex_env_def ex_len_def ex_data_def)
  moreover have "elt m [0, 0, 2] = 0"
    using m(3) [rule_format, of 0 0 2] by (simp add: ex_env_def ex_len_def ex_data_def)
  moreover have "elt ex_data [0, 2, 0] = 3" by (simp add: ex_data_def)
  ultimately show ?thesis using ex_left_call ex_eval_inputs sx sl m(1,2) node by blast
qed

subsection \<open>Padding to the left\<close>

text \<open>
  C4. With the pad mode \<open>left\<close> and \<^verbatim>\<open>skip_padding=False\<close>, on valid inputs with a
  kernel width \<open>k \<ge> 1\<close>: the call returns the graph of a convolution padded with
  \<open>k - 1\<close> on each side of the time axis, whose output has \<open>seq_len + k - 1\<close> time
  steps, sliced afterwards to the first \<open>seq_len\<close> of them, so that the result has the
  shape (batch, seq_len, \<open>num_hidden\<close>). The result is causal: for two data tensors that
  agree, for a batch element, on all time steps up to \<open>t\<close>, the results agree for that
  batch element at time step \<open>t\<close>.
\<close>

theorem left_pad_causal:
  fixes E E' :: "'a::semiring_0 env"
  assumes left: "pad_type self = ''left''"
    and v: "valid_inputs E self data dl B T H x l w bs"
    and v': "valid_inputs E' self data dl B T H x' l w bs"
    and same: "act_fun E' = act_fun E" "len_val E' = len_val E"
  shows "\<exists>out cv y y'.
           ConvolutionBlock_call self data dl (int T) False tr =
             (Inr out,
              tr @ [''swapaxes'', ''SequenceMask'', ''transpose'', ''Convolution'',
                    ''slice_axis''] @
                (if act_type (config self) = ''glu''
                 then [''split'', ''Activation'', ''broadcast_mul''] else [''Activation'']) @
                [''swapaxes'']) \<and>
           out = SwapAxes (activation_node self
                   (SliceAxis (conv_node self data dl (Some (kernel_width (config self) - 1)))
                      2 0 (int T))) 1 2 \<and>
           eval E (conv_node self data dl (Some (kernel_width (config self) - 1))) = Inr cv \<and>
           shape cv = [B, nat (num_filter_of self), T + (nat (kernel_width (config self)) - 1)] \<and>
           eval E out = Inr y \<and> shape y = [B, T, nat (num_hidden (config self))] \<and>
           eval E' out = Inr y' \<and> shape y' = [B, T, nat (num_hidden (config self))] \<and>
           (\<forall>b<B. \<forall>t<T.
              (\<forall>h<H. \<forall>s\<le>t. elt x' [b, s, h] = elt x [b, s, h]) \<longrightarrow>
              (\<forall>c<nat (num_hidden (config self)). elt y' [b, t, c] = elt y [b, t, c]))"
proof -
  let ?k = "kernel_width (config self)"
  let ?N = "nat (num_hidden (config self))"
  let ?p = "Some (?k - 1)"
  let ?G = "block_graph self data dl (int T) False ?p"
  let ?F = "conv_val w bs H (nat ?k) (nat ?k - 1) T (masked_val (len_val E) x l)"
  let ?F' = "conv_val w bs H (nat ?k) (nat ?k - 1) T (masked_val (len_val E) x' l)"
  from v have k: "0 < nat ?k" by (simp add: valid_inputs_def)
  have g: "?G = SwapAxes (activation_node self
                   (SliceAxis (conv_node self data dl ?p) 2 0 (int T))) 1 2"
    using left by (simp add: block_graph_def)
  from left_conv_value [OF v]
  obtain cv where cv: "eval E (conv_node self data dl ?p) = Inr cv"
    "shape cv = [B, nat (num_filter_of self), T + (nat ?k - 1)]"
    by (auto simp add: is3_def)
  from left_graph_value [OF left v]
  obtain y where y: "eval E ?G = Inr y"
    "is3 y B T ?N (\<lambda>b t h. act_val self (act_fun E) ?F b h t)" by blast
  from left_graph_value [OF left v', unfolded same]
  obtain y' where y': "eval E' ?G = Inr y'"
    "is3 y' B T ?N (\<lambda>b t h. act_val self (act_fun E) ?F' b h t)" by blast
  have causal: "elt y' [b, t, c] = elt y [b, t, c]"
    if b: "b < B" and t: "t < T" and c: "c < ?N"
      and eq: "\<forall>h<H. \<forall>s\<le>t. elt x' [b, s, h] = elt x [b, s, h]" for b t c
  proof -
    have F: "?F' b f t = ?F b f t" for f
    proof (rule conv_val_causal [OF _ k])
      fix c s
      assume "c < H" "s \<le> t"
      with eq have "elt x' [b, s, c] = elt x [b, s, c]" by simp
      then show "masked_val (len_val E) x' l b c s = masked_val (len_val E) x l b c s"
        by (rule masked_val_same)
    qed
    have "act_val self (act_fun E) ?F' b c t = act_val self (act_fun E) ?F b c t"
      by (rule act_val_cong) (rule F)+
    moreover have "elt y' [b, t, c] = act_val self (act_fun E) ?F' b c t"
      using y'(2) b t c by (simp add: is3_def)
    moreover have "elt y [b, t, c] = act_val self (act_fun E) ?F b c t"
      using y(2) b t c by (simp add: is3_def)
    ultimately show ?thesis by simp
  qed
  have sy: "shape y = [B, T, ?N]" using y(2) by (simp add: is3_def)
  have sy': "shape y' = [B, T, ?N]" using y'(2) by (simp add: is3_def)
  show ?thesis
  proof (rule exI [of _ ?G], rule exI [of _ cv], rule exI [of _ y], rule exI [of _ y'],
      intro conjI allI impI)
    show "ConvolutionBlock_call self data dl (int T) False tr =
             (Inr ?G,
              tr @ [''swapaxes'', ''SequenceMask'', ''transpose'', ''Convolution'',
                    ''slice_axis''] @
                (if act_type (config self) = ''glu''
                 then [''split'', ''Activation'', ''broadcast_mul''] else [''Activation'']) @
                [''swapaxes''])"
      using call_left [OF left, of data dl "int T" tr] by simp
    show "?G = SwapAxes (activation_node self
                   (SliceAxis (conv_node self data dl ?p) 2 0 (int T))) 1 2"
      by (rule g)
    show "eval E (conv_node self data dl ?p) = Inr cv" by (rule cv(1))
    show "shape cv = [B, nat (num_filter_of self), T + (nat ?k - 1)]" by (rule cv(2))
    show "eval E ?G = Inr y" by (rule y(1))
    show "shape y = [B, T, ?N]" by (rule sy)
    show "eval E' ?G = Inr y'" by (rule y'(1))
    show "shape y' = [B, T, ?N]" by (rule sy')
  next
    fix b t c
    assume a: "b < B" "t < T" "\<forall>h<H. \<forall>s\<le>t. elt x' [b, s, h] = elt x [b, s, h]" "c < ?N"
    show "elt y' [b, t, c] = elt y [b, t, c]" by (rule causal [OF a(1) a(2) a(4) a(3)])
  qed
qed

theorem left_pad_causal_witness:
  "pad_type (ex_block ''left'' 2) = ''left'' \<and>
   valid_inputs (ex_env 2 ex_data 3) (ex_block ''left'' 2) (Variable ''data'') (Variable ''len'')
     1 3 1 ex_data (ex_len 3) (ex_weight (nat 2)) ex_bias \<and>
   valid_inputs (ex_env 2 ex_data' 3) (ex_block ''left'' 2) (Variable ''data'') (Variable ''len'')
     1 3 1 ex_data' (ex_len 3) (ex_weight (nat 2)) ex_bias \<and>
   act_fun (ex_env 2 ex_data' 3) = act_fun (ex_env 2 ex_data 3) \<and>
   len_val (ex_env 2 ex_data' 3) = len_val (ex_env 2 ex_data 3) \<and>
   elt ex_data' [0, 2, 0] \<noteq> elt ex_data [0, 2, 0] \<and>
   (\<exists>out y y'.
      ConvolutionBlock_call (ex_block ''left'' 2) (Variable ''data'') (Variable ''len'') (int 3)
        False [] =
        (Inr out, [''swapaxes'', ''SequenceMask'', ''transpose'', ''Convolution'',
                   ''slice_axis'', ''split'', ''Activation'', ''broadcast_mul'', ''swapaxes'']) \<and>
      eval (ex_env 2 ex_data 3) out = Inr y \<and> shape y = [1, 3, 1] \<and>
      eval (ex_env 2 ex_data' 3) out = Inr y' \<and> shape y' = [1, 3, 1] \<and>
      elt y' [0, 1, 0] = elt y [0, 1, 0])"
proof -
  let ?self = "ex_block ''left'' 2"
  let ?E = "ex_env 2 ex_data 3"
  let ?E' = "ex_env 2 ex_data' 3"
  have left: "pad_type ?self = ''left''" by (rule ex_block_fields)
  have v: "valid_inputs ?E ?self (Variable ''data'') (Variable ''len'')
     1 3 1 ex_data (ex_len 3) (ex_weight (nat 2)) ex_bias"
    by (rule ex_valid_inputs) (simp_all add: ex_data_def)
  have v': "valid_inputs ?E' ?self (Variable ''data'') (Variable ''len'')
     1 3 1 ex_data' (ex_len 3) (ex_weight (nat 2)) ex_bias"
    by (rule ex_valid_inputs) (simp_all add: ex_data'_def)
  have same: "act_fun ?E' = act_fun ?E" "len_val ?E' = len_val ?E"
    by (simp_all add: ex_env_def)
  have diff: "elt ex_data' [0, 2, 0] \<noteq> elt ex_data [0, 2, 0]"
    by (simp add: ex_data_def ex_data'_def)
  have early: "\<forall>h<1. \<forall>s\<le>1. elt ex_data' [0, s, h] = elt ex_data [0, s, h]"
    by (simp add: ex_data_def ex_data'_def)
  from left_pad_causal [OF left v v' same, of "[]"]
  obtain out y y' where
    ret: "ConvolutionBlock_call ?self (Variable ''data'') (Variable ''len'') (int 3) False [] =
        (Inr out,
         [] @ [''swapaxes'', ''SequenceMask'', ''transpose'', ''Convolution'', ''slice_axis''] @
           (if act_type (config ?self) = ''glu''
            then [''split'', ''Activation'', ''broadcast_mul''] else [''Activation'']) @
           [''swapaxes''])"
    and y: "eval ?E out = Inr y" "shape y = [1, 3, nat (num_hidden (config ?self))]"
    and y': "eval ?E' out = Inr y'" "shape y' = [1, 3, nat (num_hidden (config ?self))]"
    and causal: "\<forall>b<1. \<forall>t<3.
              (\<forall>h<1. \<forall>s\<le>t. elt ex_data' [b, s, h] = elt ex_data [b, s, h]) \<longrightarrow>
              (\<forall>c<nat (num_hidden (config ?self)). elt y' [b, t, c] = elt y [b, t, c])"
    by blast
  have eq: "elt y' [0, 1, 0] = elt y [0, 1, 0]"
    using causal [rule_format, of 0 1 0] early by (simp add: ex_block_fields)
  have ret': "ConvolutionBlock_call ?self (Variable ''data'') (Variable ''len'') (int 3) False [] =
        (Inr out, [''swapaxes'', ''SequenceMask'', ''transpose'', ''Convolution'',
                   ''slice_axis'', ''split'', ''Activation'', ''broadcast_mul'', ''swapaxes''])"
    using ret by (simp add: ex_block_fields)
  have sy: "shape y = [1, 3, 1]" "shape y' = [1, 3, 1]"
    using y(2) y'(2) by (simp_all add: ex_block_fields)
  from left v v' same diff ret' y(1) y'(1) sy eq show ?thesis by blast
qed

subsection \<open>Padding and the length of the output\<close>

text \<open>
  C5. With the pad mode \<open>centered\<close>, \<^verbatim>\<open>skip_padding=False\<close> and an odd kernel width
  \<open>k\<close>, the call returns the graph of a convolution padded with \<open>(k - 1) div 2\<close> on each
  side of the time axis and no slicing (no \<^verbatim>\<open>slice_axis\<close> is called, and the activation
  reads the convolution itself). On valid inputs the convolution output has as many
  time steps as the data, and the result has the shape (batch, time, \<open>num_hidden\<close>).
\<close>

theorem centered_pad_keeps_length:
  fixes E :: "'a::semiring_0 env"
  assumes cen: "pad_type self = ''centered''"
    and odd: "kernel_width (config self) mod 2 = 1"
    and v: "valid_inputs E self data dl B T H x l w bs"
  shows "\<exists>out cv y.
           ConvolutionBlock_call self data dl seq_len False tr =
             (Inr out,
              tr @ [''swapaxes'', ''SequenceMask'', ''transpose'', ''Convolution''] @
                (if act_type (config self) = ''glu''
                 then [''split'', ''Activation'', ''broadcast_mul''] else [''Activation'']) @
                [''swapaxes'']) \<and>
           out = SwapAxes (activation_node self
                   (conv_node self data dl (Some ((kernel_width (config self) - 1) div 2)))) 1 2 \<and>
           eval E (conv_node self data dl (Some ((kernel_width (config self) - 1) div 2))) =
             Inr cv \<and>
           is3 cv B (nat (num_filter_of self)) T
             (conv_val w bs H (nat (kernel_width (config self)))
                (nat ((kernel_width (config self) - 1) div 2)) T
                (masked_val (len_val E) x l)) \<and>
           eval E out = Inr y \<and>
           shape y = [B, T, nat (num_hidden (config self))]"
proof -
  let ?p = "Some ((kernel_width (config self) - 1) div 2)"
  from v have k: "1 \<le> kernel_width (config self)" by (simp add: valid_inputs_def)
  have g: "block_graph self data dl seq_len False ?p =
           SwapAxes (activation_node self (conv_node self data dl ?p)) 1 2"
    using cen by (simp add: block_graph_def)
  from centered_conv_value [OF odd v]
  obtain cv where cv: "eval E (conv_node self data dl ?p) = Inr cv"
    "is3 cv B (nat (num_filter_of self)) T
             (conv_val w bs H (nat (kernel_width (config self)))
                (nat ((kernel_width (config self) - 1) div 2)) T
                (masked_val (len_val E) x l))" by blast
  from centered_graph_value [OF cen odd v, of seq_len]
  obtain y where y: "eval E (block_graph self data dl seq_len False ?p) = Inr y"
    "shape y = [B, T, nat (num_hidden (config self))]"
    by (auto simp add: is3_def)
  from call_centered [OF cen odd k, of data dl seq_len tr] g cv y show ?thesis by simp
qed

theorem centered_pad_keeps_length_witness:
  "pad_type (ex_block ''centered'' 3) = ''centered'' \<and>
   kernel_width (config (ex_block ''centered'' 3)) mod 2 = 1 \<and>
   valid_inputs (ex_env 3 ex_data 2) (ex_block ''centered'' 3) (Variable ''data'')
     (Variable ''len'') 1 3 1 ex_data (ex_len 2) (ex_weight (nat 3)) ex_bias \<and>
   (\<exists>out cv y.
      ConvolutionBlock_call (ex_block ''centered'' 3) (Variable ''data'') (Variable ''len'') 3
        False [] =
        (Inr out, [''swapaxes'', ''SequenceMask'', ''transpose'', ''Convolution'', ''split'',
                   ''Activation'', ''broadcast_mul'', ''swapaxes'']) \<and>
      out = SwapAxes (activation_node (ex_block ''centered'' 3)
              (conv_node (ex_block ''centered'' 3) (Variable ''data'') (Variable ''len'')
                 (Some 1))) 1 2 \<and>
      eval (ex_env 3 ex_data 2)
        (conv_node (ex_block ''centered'' 3) (Variable ''data'') (Variable ''len'') (Some 1)) =
        Inr cv \<and>
      shape cv = [1, 2, 3] \<and>
      eval (ex_env 3 ex_data 2) out = Inr y \<and> shape y = [1, 3, 1])"
proof -
  let ?self = "ex_block ''centered'' 3"
  have cen: "pad_type ?self = ''centered''" by (rule ex_block_fields)
  have odd: "kernel_width (config ?self) mod 2 = 1" by (simp add: ex_block_fields)
  from centered_pad_keeps_length [OF cen odd ex_centered_valid, of 3 "[]"]
  show ?thesis
    using cen odd ex_centered_valid
    unfolding ex_block_fields is3_def by auto
qed

text \<open>
  C6. For every valid input of shape (batch, seq_len, hidden), every tensor that
  \<^verbatim>\<open>__call__\<close> returns has the shape (batch, seq_len, \<open>num_hidden\<close>), whatever the pad
  mode; and the call does return one with \<^verbatim>\<open>skip_padding=False\<close> and the pad mode
  \<open>left\<close>, or \<open>centered\<close> with an odd kernel width.
\<close>

theorem output_shape:
  fixes E :: "'a::semiring_0 env"
  assumes v: "valid_inputs E self data dl B T H x l w bs"
  shows "(\<forall>out tr'.
            ConvolutionBlock_call self data dl (int T) skip tr = (Inr out, tr') \<longrightarrow>
            (\<exists>y. eval E out = Inr y \<and> shape y = [B, T, nat (num_hidden (config self))])) \<and>
         (\<not> skip \<and>
          (pad_type self = ''left'' \<or>
           pad_type self = ''centered'' \<and> kernel_width (config self) mod 2 = 1) \<longrightarrow>
          (\<exists>out tr'. ConvolutionBlock_call self data dl (int T) skip tr = (Inr out, tr')))"
proof (intro conjI allI impI)
  fix out tr'
  assume ret: "ConvolutionBlock_call self data dl (int T) skip tr = (Inr out, tr')"
  from v have k: "1 \<le> kernel_width (config self)" by (simp add: valid_inputs_def)
  from call_Inr_not_skip [OF ret] have ns: "skip = False" by simp
  from call_Inr_padding [OF ret] obtain p
    where pad: "call_padding self skip = Inr (Some p)"
      and out: "out = block_graph self data dl (int T) skip (Some p)" by blast
  from call_padding_Some_cases [OF pad]
  show "\<exists>y. eval E out = Inr y \<and> shape y = [B, T, nat (num_hidden (config self))]"
  proof
    assume a: "pad_type self = ''left'' \<and> p = kernel_width (config self) - 1"
    then have left: "pad_type self = ''left''" by simp
    from left_graph_value [OF left v] a out ns show ?thesis
      by (auto simp add: is3_def)
  next
    assume a: "pad_type self = ''centered'' \<and> kernel_width (config self) mod 2 = 1 \<and>
               p = int_half (kernel_width (config self) - 1)"
    then have cen: "pad_type self = ''centered''"
      and odd: "kernel_width (config self) mod 2 = 1" by simp_all
    from a int_half_odd(1) [OF k odd]
    have p: "p = (kernel_width (config self) - 1) div 2" by simp
    from centered_graph_value [OF cen odd v, of "int T"] p out ns show ?thesis
      by (auto simp add: is3_def)
  qed
next
  assume a: "\<not> skip \<and>
          (pad_type self = ''left'' \<or>
           pad_type self = ''centered'' \<and> kernel_width (config self) mod 2 = 1)"
  from v have k: "1 \<le> kernel_width (config self)" by (simp add: valid_inputs_def)
  from a have ns: "skip = False" by simp
  from a have "pad_type self = ''left'' \<or>
           pad_type self = ''centered'' \<and> kernel_width (config self) mod 2 = 1" by simp
  then show "\<exists>out tr'. ConvolutionBlock_call self data dl (int T) skip tr = (Inr out, tr')"
  proof
    assume left: "pad_type self = ''left''"
    from call_left [OF left, of data dl "int T" tr] ns show ?thesis by blast
  next
    assume c: "pad_type self = ''centered'' \<and> kernel_width (config self) mod 2 = 1"
    then have cen: "pad_type self = ''centered''"
      and odd: "kernel_width (config self) mod 2 = 1" by simp_all
    from call_centered [OF cen odd k, of data dl "int T" tr] ns show ?thesis by blast
  qed
qed

theorem output_shape_witness:
  "valid_inputs (ex_env 2 ex_data 2) (ex_block ''left'' 2) (Variable ''data'') (Variable ''len'')
     1 3 1 ex_data (ex_len 2) (ex_weight (nat 2)) ex_bias \<and>
   pad_type (ex_block ''left'' 2) = ''left'' \<and>
   (\<exists>out tr' y.
      ConvolutionBlock_call (ex_block ''left'' 2) (Variable ''data'') (Variable ''len'') (int 3)
        False [] = (Inr out, tr') \<and>
      eval (ex_env 2 ex_data 2) out = Inr y \<and> shape y = [1, 3, 1])"
proof -
  let ?self = "ex_block ''left'' 2"
  let ?E = "ex_env 2 ex_data 2"
  have pt: "pad_type ?self = ''left''" by (rule ex_block_fields)
  note inst = output_shape [where skip = False and tr = "[]", OF ex_left_valid]
  from inst pt obtain out tr' where
    ret: "ConvolutionBlock_call ?self (Variable ''data'') (Variable ''len'') (int 3) False [] =
            (Inr out, tr')"
    by blast
  from inst ret obtain y where
    "eval ?E out = Inr y" "shape y = [1, 3, nat (num_hidden (config ?self))]"
    by blast
  then have "eval ?E out = Inr y \<and> shape y = [1, 3, 1]" by (simp add: ex_block_fields)
  with ret ex_left_valid pt show ?thesis by blast
qed

subsection \<open>Skipping the padding\<close>

text \<open>
  C10, on the code. With \<^verbatim>\<open>skip_padding=True\<close> the pad mode is never looked at and the
  padding is \<^verbatim>\<open>None\<close>, for every block; but the call then hands \<^verbatim>\<open>pad=None\<close> to
  \<^verbatim>\<open>mx.sym.Convolution\<close>, which rejects it: every such call raises after
  \<^verbatim>\<open>swapaxes\<close>, \<^verbatim>\<open>SequenceMask\<close> and \<^verbatim>\<open>transpose\<close>, and no convolution output of
  \<open>seq_len - kernel_width + 1\<close> time steps is ever built.
\<close>

theorem skip_padding_raises_in_convolution:
  "call_padding self True = Inr None \<and>
   ConvolutionBlock_call self data dl seq_len True tr =
     (Inl invalid_pad, tr @ [''swapaxes'', ''SequenceMask'', ''transpose''])"
  using call_padding_skip [of self] call_skip_raises [of self data dl seq_len tr] by simp

subsection \<open>Failures\<close>

text \<open>
  C3, as the code has it. Constructing a block never fails, whatever the kernel width and
  the pad mode: an even kernel width with the pad mode \<open>centered\<close> is constructed like
  any other.
\<close>

theorem even_centered_constructs_counterexample:
  "ConvolutionBlock_init \<lparr>kernel_width = 4, num_hidden = 8, act_type = ''glu''\<rparr> ''centered'' ''enc_'' =
     Inr \<lparr>prefix = ''enc_'', pad_type = ''centered'',
          config = \<lparr>kernel_width = 4, num_hidden = 8, act_type = ''glu''\<rparr>,
          conv_weight = Variable ''enc_conv_weight'', conv_bias = Variable ''enc_conv_bias''\<rparr>"
  by (simp add: ConvolutionBlock_init_def)

text \<open>
  C3, amended. An even kernel width combined with the pad mode \<open>centered\<close> is not
  detected at construction: the block is constructed, and the invalid-configuration
  error is raised by \<^verbatim>\<open>__call__\<close> with \<^verbatim>\<open>skip_padding=False\<close>, before any operator
  is called (the trace is unchanged).
\<close>

theorem even_centered_raises_at_call:
  assumes "kernel_width cfg mod 2 \<noteq> 1"
  shows "\<exists>self. ConvolutionBlock_init cfg ''centered'' pre = Inr self \<and>
           config self = cfg \<and> pad_type self = ''centered'' \<and>
           ConvolutionBlock_call self data dl seq_len False tr =
             (Inl (SockeyeError (''Only odd kernel widths supported, but got '' @
                                   str_int (kernel_width cfg))), tr)"
proof -
  let ?self = "\<lparr>prefix = pre, pad_type = ''centered'', config = cfg,
          conv_weight = Variable (pre @ ''conv_weight''),
          conv_bias = Variable (pre @ ''conv_bias'')\<rparr>"
  have pt: "pad_type ?self = ''centered''" and k: "kernel_width (config ?self) mod 2 \<noteq> 1"
    using assms by simp_all
  from call_raises [OF call_padding_centered_even [OF pt k]]
  have "ConvolutionBlock_call ?self data dl seq_len False tr =
             (Inl (SockeyeError (''Only odd kernel widths supported, but got '' @
                                   str_int (kernel_width cfg))), tr)"
    by simp
  then show ?thesis by (simp add: ConvolutionBlock_init_def)
qed

theorem even_centered_raises_at_call_witness:
  "kernel_width \<lparr>kernel_width = 4, num_hidden = 8, act_type = ''glu''\<rparr> mod 2 \<noteq> 1 \<and>
   (\<exists>self. ConvolutionBlock_init \<lparr>kernel_width = 4, num_hidden = 8, act_type = ''glu''\<rparr>
              ''centered'' ''enc_'' = Inr self \<and>
      ConvolutionBlock_call self (Variable ''data'') (Variable ''len'') 10 False [] =
        (Inl (SockeyeError ''Only odd kernel widths supported, but got 4''), []))"
proof -
  have h: "kernel_width \<lparr>kernel_width = 4, num_hidden = 8, act_type = ''glu''\<rparr> mod 2 \<noteq> 1"
    by simp
  from even_centered_raises_at_call [OF h, of "''enc_''" "Variable ''data''" "Variable ''len''" 10 "[]"]
  show ?thesis using h by (auto simp add: str_int_4)
qed

text \<open>
  C7, as the code has it. With \<^verbatim>\<open>skip_padding=True\<close> a call whose pad mode is neither
  \<open>left\<close> nor \<open>centered\<close> raises no \<^verbatim>\<open>ValueError\<close>: it makes three operator calls on
  the input and then ends in the convolution, with MXNet's error about \<^verbatim>\<open>pad\<close>.
\<close>

theorem unknown_pad_type_skip_counterexample:
  "ConvolutionBlock_call (ex_block ''right'' 2) (Variable ''data'') (Variable ''len'') 3 True [] =
     (Inl invalid_pad, [''swapaxes'', ''SequenceMask'', ''transpose'']) \<and>
   invalid_pad \<noteq> ValueError (''Unknown pad type '' @ pad_type (ex_block ''right'' 2))"
  using call_skip_raises [of "ex_block ''right'' 2" "Variable ''data''" "Variable ''len''" 3 "[]"]
  by (simp add: invalid_pad_def)

text \<open>
  C7, amended. For every call with \<^verbatim>\<open>skip_padding=False\<close> whose pad mode is neither
  \<open>left\<close> nor \<open>centered\<close>, \<^verbatim>\<open>ValueError\<close> is raised at call time, before any operator is
  called: the trace of operator calls is returned as it was.
\<close>

theorem unknown_pad_type_raises:
  assumes "pad_type self \<noteq> ''left''" and "pad_type self \<noteq> ''centered''"
  shows "ConvolutionBlock_call self data dl seq_len False tr =
           (Inl (ValueError (''Unknown pad type '' @ pad_type self)), tr)"
  using call_raises [OF call_padding_unknown [OF assms]] .

theorem unknown_pad_type_raises_witness:
  "pad_type (ex_block ''right'' 2) \<noteq> ''left'' \<and>
   pad_type (ex_block ''right'' 2) \<noteq> ''centered'' \<and>
   ConvolutionBlock_call (ex_block ''right'' 2) (Variable ''data'') (Variable ''len'') 3 False
     [''Variable''] =
     (Inl (ValueError ''Unknown pad type right''), [''Variable''])"
proof -
  have a: "pad_type (ex_block ''right'' 2) \<noteq> ''left''"
    and b: "pad_type (ex_block ''right'' 2) \<noteq> ''centered''"
    by (simp_all add: ex_block_fields)
  from unknown_pad_type_raises [OF a b, of "Variable ''data''" "Variable ''len''" 3 "[''Variable'']"]
  show ?thesis using a b by (simp add: ex_block_fields)
qed

subsection \<open>Construction of the configuration\<close>

text \<open>
  C8. Constructing a \<open>ConvolutionConfig\<close> with an activation kind outside the supported
  set raises the invalid-configuration error at construction time, and constructing with
  a supported activation kind succeeds and stores that kind unchanged (together with the
  two sizes).
\<close>

theorem ConvolutionConfig_init_act_type:
  "(a \<notin> set (CNN_ACTIVATION_TYPES C) \<longrightarrow>
      ConvolutionConfig_init C kw nh (Some a) =
        Inl (SockeyeError (''Unknown activation '' @ a @ ''.''))) \<and>
   (a \<in> set (CNN_ACTIVATION_TYPES C) \<longrightarrow>
      ConvolutionConfig_init C kw nh (Some a) =
        Inr \<lparr>kernel_width = kw, num_hidden = nh, act_type = a\<rparr>)"
  by (simp add: ConvolutionConfig_init_def check_condition_def)

theorem ConvolutionConfig_init_act_type_witness:
  "ConvolutionConfig_init
     \<lparr>GLU = ''glu'', CNN_ACTIVATION_TYPES = [''glu'', ''relu'', ''sigmoid'', ''softrelu'', ''tanh'']\<rparr>
     3 8 (Some ''relu_invalid'') = Inl (SockeyeError ''Unknown activation relu_invalid.'') \<and>
   ConvolutionConfig_init
     \<lparr>GLU = ''glu'', CNN_ACTIVATION_TYPES = [''glu'', ''relu'', ''sigmoid'', ''softrelu'', ''tanh'']\<rparr>
     3 8 (Some ''relu'') = Inr \<lparr>kernel_width = 3, num_hidden = 8, act_type = ''relu''\<rparr>"
  using ConvolutionConfig_init_act_type
          [of "''relu_invalid''"
              "\<lparr>GLU = ''glu'', CNN_ACTIVATION_TYPES = [''glu'', ''relu'', ''sigmoid'', ''softrelu'', ''tanh'']\<rparr>"
              3 8]
        ConvolutionConfig_init_act_type
          [of "''relu''"
              "\<lparr>GLU = ''glu'', CNN_ACTIVATION_TYPES = [''glu'', ''relu'', ''sigmoid'', ''softrelu'', ''tanh'']\<rparr>"
              3 8]
  by simp

end
